theory Spec2Isabelle
  imports Complex_Main "HOL-Library.AList" "HOL-Library.Log_Nat" "HOL-Library.Multiset"
begin

section \<open>JavaScript numbers as the storage layer uses them\<close>

text \<open>
  \<^verbatim>\<open>createTransaction\<close> reads the balance and the amount with \<^verbatim>\<open>parseFloat\<close>,
  adds or subtracts the two binary64 values and writes the result back with
  \<^verbatim>\<open>toFixed(2)\<close>. A Number is modelled by its exact value: a finite double is the
  rational it denotes. The two zeros are one value here: neither \<^verbatim>\<open>toFixed\<close> nor
  addition followed by \<^verbatim>\<open>toFixed\<close> can tell them apart.
\<close>

datatype number = NaN | PosInfinity | NegInfinity | Finite rat

definition pow2 :: "int \<Rightarrow> rat" where
  "pow2 e = (if 0 \<le> e then 2 ^ nat e else 1 / 2 ^ nat (- e))"

text \<open>For \<open>0 < x\<close>, the exponent \<open>e\<close> with \<open>2\<^sup>e \<le> x < 2\<^sup>e\<^sup>+\<^sup>1\<close>.\<close>

definition floor_log2 :: "rat \<Rightarrow> int" where
  "floor_log2 x = (if 1 \<le> x then bitlen \<lfloor>x\<rfloor> - 1 else - bitlen (\<lceil>1 / x\<rceil> - 1))"

definition round_half_even :: "rat \<Rightarrow> int" where
  "round_half_even t =
     (let f = \<lfloor>t\<rfloor>; r = t - of_int f
      in if r < 1 / 2 then f else if 1 / 2 < r then f + 1 else if even f then f else f + 1)"

text \<open>
  Rounding of a real value to binary64, to nearest with ties to even: 53 significant
  bits, the least exponent \<open>-1022\<close> (below it the spacing stays \<open>2\<^sup>-\<^sup>1\<^sup>0\<^sup>7\<^sup>4\<close>), and an
  infinity when the rounded value reaches \<open>2\<^sup>1\<^sup>0\<^sup>2\<^sup>4\<close>.
\<close>

definition round_double :: "rat \<Rightarrow> number" where
  "round_double x =
     (if x = 0 then Finite 0
      else let e = max (floor_log2 \<bar>x\<bar>) (- 1022);
               q = pow2 (e - 52);
               y = of_int (round_half_even (\<bar>x\<bar> / q)) * q
           in if pow2 1024 \<le> y then (if 0 < x then PosInfinity else NegInfinity)
              else Finite (sgn x * y))"

fun number_add :: "number \<Rightarrow> number \<Rightarrow> number" where
  "number_add NaN b = NaN"
| "number_add a NaN = NaN"
| "number_add PosInfinity NegInfinity = NaN"
| "number_add NegInfinity PosInfinity = NaN"
| "number_add PosInfinity b = PosInfinity"
| "number_add a PosInfinity = PosInfinity"
| "number_add NegInfinity b = NegInfinity"
| "number_add a NegInfinity = NegInfinity"
| "number_add (Finite x) (Finite y) = round_double (x + y)"

fun number_neg :: "number \<Rightarrow> number" where
  "number_neg NaN = NaN"
| "number_neg PosInfinity = NegInfinity"
| "number_neg NegInfinity = PosInfinity"
| "number_neg (Finite x) = Finite (- x)"

definition number_sub :: "number \<Rightarrow> number \<Rightarrow> number" where
  "number_sub a b = number_add a (number_neg b)"

subsection \<open>Decimal digits\<close>

definition is_digit :: "char \<Rightarrow> bool" where
  "is_digit c = (c \<in> set ''0123456789'')"

definition digit_val :: "char \<Rightarrow> nat" where
  "digit_val c = of_char c - of_char (CHR ''0'')"

definition digit_char :: "nat \<Rightarrow> char" where
  "digit_char d = ''0123456789'' ! d"

definition digits_value :: "string \<Rightarrow> nat" where
  "digits_value ds = foldl (\<lambda>v c. 10 * v + digit_val c) 0 ds"

function digits_of :: "nat \<Rightarrow> string" where
  "digits_of n =
     (if n < 10 then [digit_char n] else digits_of (n div 10) @ [digit_char (n mod 10)])"
  by pat_completeness auto
termination
  by (relation "measure (\<lambda>n. n)") auto

declare digits_of.simps [simp del]

definition pow10 :: "int \<Rightarrow> rat" where
  "pow10 e = (if 0 \<le> e then 10 ^ nat e else 1 / 10 ^ nat (- e))"

subsection \<open>\<^verbatim>\<open>parseFloat\<close>\<close>

text \<open>
  \<^verbatim>\<open>parseFloat\<close> skips leading white space, takes the longest prefix that is a
  \<^verbatim>\<open>StrDecimalLiteral\<close> (a sign, then \<^verbatim>\<open>Infinity\<close> or digits with an optional
  fraction and an optional exponent) and rounds its value to a double; with no such
  prefix the result is \<^verbatim>\<open>NaN\<close>. A character of the model is a code unit from 0 to
  255. Of the white space that \<^verbatim>\<open>parseFloat\<close> skips these are TAB, LF, VT, FF, CR,
  the space and the no-break space U+00A0; the white space beyond 255 cannot occur
  in a string of the model.
\<close>

definition is_whitespace :: "char \<Rightarrow> bool" where
  "is_whitespace c =
     (c \<in> set [CHR 0x09, CHR 0x0A, CHR 0x0B, CHR 0x0C, CHR 0x0D, CHR 0x20, CHR 0xA0])"

text \<open>An \<^verbatim>\<open>ExponentPart\<close> at the head of the string; 0 when there is none.\<close>

definition exponent_part :: "string \<Rightarrow> int" where
  "exponent_part r =
     (case r of
        [] \<Rightarrow> 0
      | c # r1 \<Rightarrow>
          if c = CHR ''e'' \<or> c = CHR ''E'' then
            (let neg = (case r1 of [] \<Rightarrow> False | s # _ \<Rightarrow> s = CHR ''-'');
                 u = (case r1 of [] \<Rightarrow> []
                      | s # r2 \<Rightarrow> if s = CHR ''-'' \<or> s = CHR ''+'' then r2 else r1);
                 ds = takeWhile is_digit u
             in if ds = [] then 0
                else if neg then - int (digits_value ds) else int (digits_value ds))
          else 0)"

text \<open>
  The value of the longest prefix that is a \<^verbatim>\<open>StrUnsignedDecimalLiteral\<close> other
  than \<^verbatim>\<open>Infinity\<close>: digits, an optional point with digits, an optional exponent, and
  at least one digit before the exponent.
\<close>

definition str_unsigned_decimal :: "string \<Rightarrow> rat option" where
  "str_unsigned_decimal u =
     (let ip = takeWhile is_digit u;
          r1 = dropWhile is_digit u;
          has_point = (case r1 of [] \<Rightarrow> False | c # _ \<Rightarrow> c = CHR ''.'');
          fp = (if has_point then takeWhile is_digit (tl r1) else []);
          r2 = (if has_point then dropWhile is_digit (tl r1) else r1)
      in if ip = [] \<and> fp = [] then None
         else Some (of_nat (digits_value (ip @ fp))
                      * pow10 (exponent_part r2 - int (length fp))))"

definition parseFloat :: "string \<Rightarrow> number" where
  "parseFloat s =
     (let t = dropWhile is_whitespace s;
          neg = (case t of [] \<Rightarrow> False | c # _ \<Rightarrow> c = CHR ''-'');
          u = (case t of [] \<Rightarrow> []
               | c # r \<Rightarrow> if c = CHR ''-'' \<or> c = CHR ''+'' then r else t)
      in if take 8 u = ''Infinity'' then (if neg then NegInfinity else PosInfinity)
         else case str_unsigned_decimal u of
                None \<Rightarrow> NaN
              | Some v \<Rightarrow> round_double (if neg then - v else v))"

subsection \<open>\<^verbatim>\<open>Number.prototype.toFixed\<close>\<close>

text \<open>
  The digits of \<open>n\<close> with a point before the last \<open>f\<close> of them, padded with zeros on
  the left to \<open>f + 1\<close> digits.
\<close>

definition fixed_digits :: "nat \<Rightarrow> nat \<Rightarrow> string" where
  "fixed_digits f n =
     (let m = digits_of n
      in if f = 0 then m
         else let m' = (if length m \<le> f then replicate (f + 1 - length m) (CHR ''0'') @ m
                        else m);
                  k = length m'
              in take (k - f) m' @ ''.'' @ drop (k - f) m')"

text \<open>
  From \<open>10\<^sup>2\<^sup>1\<close> on, \<^verbatim>\<open>toFixed\<close> gives what \<^verbatim>\<open>Number::toString\<close> gives: the
  shortest decimal \<open>s \<times> 10\<^sup>n\<^sup>-\<^sup>k\<close> of \<open>k\<close> digits that rounds to the double, the
  nearest one where several do, in exponent notation. Seventeen digits always
  identify a double. \<open>toString_candidate x n k\<close> is that \<open>s\<close> among the two
  \<open>k\<close>-digit neighbours of \<open>x\<close>, when one of them rounds to \<open>x\<close>.
\<close>

definition toString_candidate :: "rat \<Rightarrow> nat \<Rightarrow> nat \<Rightarrow> nat option" where
  "toString_candidate x n k =
     (let p = 10 ^ (n - k);
          lo = nat \<lfloor>x / of_nat p\<rfloor>;
          hi = lo + 1;
          ok = (\<lambda>s. round_double (of_nat (s * p)) = Finite x)
      in if ok lo \<and> ok hi then
           (let dl = x - of_nat (lo * p); dh = of_nat (hi * p) - x
            in if dl < dh then Some lo else if dh < dl then Some hi
               else if even lo then Some lo else Some hi)
         else if ok lo then Some lo
         else if ok hi then Some hi
         else None)"

definition number_toString_exp :: "rat \<Rightarrow> string" where
  "number_toString_exp x =
     (let n = length (digits_of (nat \<lfloor>x\<rfloor>))
      in case List.map_filter
                (\<lambda>k. map_option (\<lambda>s. (k, s)) (toString_candidate x n k)) [1..<18] of
           [] \<Rightarrow> []
         | (k, s) # _ \<Rightarrow>
             (let ds = (if s = 10 ^ k then ''1'' else digits_of s);
                  e = (if s = 10 ^ k then n else n - 1)
              in take 1 ds @ (if length ds = 1 then [] else ''.'' @ drop 1 ds)
                   @ ''e+'' @ digits_of e))"

definition toFixed :: "nat \<Rightarrow> number \<Rightarrow> string" where
  "toFixed f v =
     (case v of
        NaN \<Rightarrow> ''NaN''
      | PosInfinity \<Rightarrow> ''Infinity''
      | NegInfinity \<Rightarrow> ''-Infinity''
      | Finite x \<Rightarrow>
          (let s = (if x < 0 then ''-'' else ''''); a = \<bar>x\<bar>
           in if 10 ^ 21 \<le> a then s @ number_toString_exp a
              else s @ fixed_digits f (nat \<lfloor>a * 10 ^ f + 1 / 2\<rfloor>)))"

text \<open>
  The string \<^verbatim>\<open>toFixed(2)\<close> gives for an amount of exactly \<open>c\<close> hundredths: the
  two-decimal-place form in which the seed balances are written.
\<close>

definition decimal2 :: "int \<Rightarrow> string" where
  "decimal2 c = (if c < 0 then ''-'' else []) @ fixed_digits 2 (nat \<bar>c\<bar>)"

section \<open>The schema\<close>

text \<open>
  The five tables of \<^verbatim>\<open>shared/schema.ts\<close>. A \<^verbatim>\<open>decimal\<close> column is a string in
  the inferred TypeScript type, a \<^verbatim>\<open>timestamp\<close> column a \<^verbatim>\<open>Date\<close>. Every
  \<^verbatim>\<open>createdAt\<close> is the \<^verbatim>\<open>new Date()\<close> of the moment of creation, a valid date,
  and is modelled by its time value in milliseconds.
\<close>

text \<open>
  A \<^verbatim>\<open>Date\<close> object holds a time value or is invalid (its \<^verbatim>\<open>getTime()\<close> is
  \<^verbatim>\<open>NaN\<close>).
\<close>

datatype date = Date int | InvalidDate

text \<open>
  The \<^verbatim>\<open>dueDate\<close> of a reminder is typed \<^verbatim>\<open>Date\<close>, but it does not always hold
  one: the route \<^verbatim>\<open>PATCH /api/reminders/:id\<close> hands \<^verbatim>\<open>req.body\<close> to
  \<^verbatim>\<open>updateReminder\<close> as it came, \<^verbatim>\<open>Object.assign\<close> copies what it finds, and a
  JSON body carries no \<^verbatim>\<open>Date\<close>: the due date that the client's snooze sends
  arrives as a string. The field holds a \<^verbatim>\<open>Date\<close>, valid or not, or a JSON value.
\<close>

datatype json =
  JsonNull | JsonBool bool | JsonNumber rat | JsonString string
  | JsonArray "json list" | JsonObject "(string \<times> json) list"

datatype date_field = DateValue date | JsonValue json

datatype account_type = AccountMain | AccountSavings | AccountOther
datatype transaction_type = Expense | Income
datatype category = Food | Transport | Entertainment | Study | Mess | Other
datatype debt_type = Owe | Owed
datatype reminder_status = Pending | Paid | Snoozed

fun category_name :: "category \<Rightarrow> string" where
  "category_name Food = ''food''"
| "category_name Transport = ''transport''"
| "category_name Entertainment = ''entertainment''"
| "category_name Study = ''study''"
| "category_name Mess = ''mess''"
| "category_name Other = ''other''"

record account =
  account_id :: string
  account_name :: string
  account_type :: account_type
  account_balance :: string
  account_createdAt :: int

record transaction =
  transaction_id :: string
  transaction_accountId :: string
  transaction_type :: transaction_type
  transaction_amount :: string
  transaction_description :: string
  transaction_category :: category
  transaction_createdAt :: int

record debt =
  debt_id :: string
  debt_friendName :: string
  debt_type :: debt_type
  debt_amount :: string
  debt_description :: string
  debt_settled :: bool
  debt_createdAt :: int

record reminder =
  reminder_id :: string
  reminder_title :: string
  reminder_description :: "string option"
  reminder_amount :: string
  reminder_dueDate :: date_field
  reminder_status :: reminder_status
  reminder_recurring :: bool
  reminder_createdAt :: int

record chat_message =
  message_id :: string
  message_content :: string
  message_isUser :: bool
  message_createdAt :: int

text \<open>\<^verbatim>\<open>InsertTransaction\<close>: the transaction columns without \<^verbatim>\<open>id\<close> and \<^verbatim>\<open>createdAt\<close>.\<close>

record insert_transaction =
  new_accountId :: string
  new_type :: transaction_type
  new_amount :: string
  new_description :: string
  new_category :: category

text \<open>
  \<^verbatim>\<open>InsertDebt\<close> omits \<^verbatim>\<open>id\<close>, \<^verbatim>\<open>createdAt\<close> and \<^verbatim>\<open>settled\<close>. An object
  passed under that type may still carry a \<^verbatim>\<open>settled\<close> property, which the spread in
  \<^verbatim>\<open>createDebt\<close> would copy; \<open>extra_settled\<close> is that property when present.
\<close>

record insert_debt =
  new_friendName :: string
  new_debt_type :: debt_type
  new_debt_amount :: string
  new_debt_description :: string
  extra_settled :: "bool option"

text \<open>\<^verbatim>\<open>Partial<Debt>\<close> and \<^verbatim>\<open>Partial<Reminder>\<close>: every field may be absent.\<close>

record debt_updates =
  set_debt_id :: "string option"
  set_debt_friendName :: "string option"
  set_debt_type :: "debt_type option"
  set_debt_amount :: "string option"
  set_debt_description :: "string option"
  set_debt_settled :: "bool option"
  set_debt_createdAt :: "int option"

record reminder_updates =
  set_reminder_id :: "string option"
  set_reminder_title :: "string option"
  set_reminder_description :: "string option option"
  set_reminder_amount :: "string option"
  set_reminder_dueDate :: "date_field option"
  set_reminder_status :: "reminder_status option"
  set_reminder_recurring :: "bool option"
  set_reminder_createdAt :: "int option"

section \<open>The in-memory store\<close>

text \<open>
  \<^verbatim>\<open>MemStorage\<close> holds five \<^verbatim>\<open>Map\<close>s. A \<^verbatim>\<open>Map\<close> keeps its entries in insertion
  order: it is a list of key and value pairs, \<^verbatim>\<open>get\<close> is \<^const>\<open>map_of\<close>,
  \<^verbatim>\<open>set\<close> is \<^const>\<open>AList.update\<close> (the value replaced in place, or the pair added
  at the end), \<^verbatim>\<open>delete\<close> is \<^const>\<open>AList.delete\<close> and \<^verbatim>\<open>values()\<close> is
  \<open>map snd\<close>. The keys of a \<^verbatim>\<open>Map\<close> are distinct.
\<close>

record store =
  accounts :: "(string \<times> account) list"
  transactions :: "(string \<times> transaction) list"
  debts :: "(string \<times> debt) list"
  reminders :: "(string \<times> reminder) list"
  chatMessages :: "(string \<times> chat_message) list"

definition distinct_keys :: "store \<Rightarrow> bool" where
  "distinct_keys st \<longleftrightarrow>
     distinct (map fst (accounts st)) \<and> distinct (map fst (transactions st)) \<and>
     distinct (map fst (debts st)) \<and> distinct (map fst (reminders st)) \<and>
     distinct (map fst (chatMessages st))"

text \<open>
  The methods are \<^verbatim>\<open>async\<close>: the outcome of a call is a promise, resolved with the
  value returned or rejected with what was thrown. A method that changes the store
  resolves with the store it leaves. \<open>NotFoundError\<close> is the rejection the
  specification names; \<open>TypeError\<close> is what calling \<^verbatim>\<open>getTime()\<close> on a value that
  is not a \<^verbatim>\<open>Date\<close> throws.
\<close>

datatype error = NotFoundError | TypeError

datatype 'a promise = Resolved 'a | Rejected error

fun await :: "'a promise \<Rightarrow> ('a \<Rightarrow> 'b promise) \<Rightarrow> 'b promise" where
  "await (Resolved x) k = k x"
| "await (Rejected e) k = Rejected e"

text \<open>
  \<^verbatim>\<open>Array.prototype.sort\<close> with a comparator is a stable sort. With a comparator
  that is the difference of two keys the result is the one list that is ordered and
  keeps equal elements in their order; inserting from the right, each element before
  the first one it does not exceed, computes it.
\<close>

fun insert_by :: "('a \<Rightarrow> 'a \<Rightarrow> int) \<Rightarrow> 'a \<Rightarrow> 'a list \<Rightarrow> 'a list" where
  "insert_by cmp x [] = [x]"
| "insert_by cmp x (y # ys) =
     (if cmp x y \<le> 0 then x # y # ys else y # insert_by cmp x ys)"

definition array_sort :: "('a \<Rightarrow> 'a \<Rightarrow> int) \<Rightarrow> 'a list \<Rightarrow> 'a list" where
  "array_sort cmp xs = foldr (insert_by cmp) xs []"

subsection \<open>Accounts\<close>

definition empty_store :: store where
  "empty_store =
     \<lparr>accounts = [], transactions = [], debts = [], reminders = [], chatMessages = []\<rparr>"

text \<open>
  \<^verbatim>\<open>randomUUID()\<close> and \<^verbatim>\<open>new Date()\<close> are inputs of the model: each method that
  calls them takes the identifier and the time they return. The constructor calls
  \<^verbatim>\<open>initializeDefaults\<close> without awaiting it; the body has no \<^verbatim>\<open>await\<close>, so it
  has run when the constructor returns.
\<close>

definition initializeDefaults :: "string \<Rightarrow> int \<Rightarrow> string \<Rightarrow> int \<Rightarrow> store \<Rightarrow> store" where
  "initializeDefaults id1 now1 id2 now2 st =
     (let mainAccount = \<lparr>account_id = id1, account_name = ''Main Account'',
            account_type = AccountMain, account_balance = ''2450.00'',
            account_createdAt = now1\<rparr>;
          savingsAccount = \<lparr>account_id = id2, account_name = ''Savings Account'',
            account_type = AccountSavings, account_balance = ''8750.00'',
            account_createdAt = now2\<rparr>;
          st1 = st\<lparr>accounts := AList.update (account_id mainAccount) mainAccount (accounts st)\<rparr>
      in st1\<lparr>accounts :=
               AList.update (account_id savingsAccount) savingsAccount (accounts st1)\<rparr>)"

definition MemStorage :: "string \<Rightarrow> int \<Rightarrow> string \<Rightarrow> int \<Rightarrow> store" where
  "MemStorage id1 now1 id2 now2 = initializeDefaults id1 now1 id2 now2 empty_store"

definition getAccounts :: "store \<Rightarrow> account list" where
  "getAccounts st = map snd (accounts st)"

definition getAccount :: "string \<Rightarrow> store \<Rightarrow> account option" where
  "getAccount uid st = map_of (accounts st) uid"

definition updateAccountBalance :: "string \<Rightarrow> string \<Rightarrow> store \<Rightarrow> store promise" where
  "updateAccountBalance uid balance st =
     (case map_of (accounts st) uid of
        Some account \<Rightarrow>
          Resolved (st\<lparr>accounts :=
            AList.update uid (account\<lparr>account_balance := balance\<rparr>) (accounts st)\<rparr>)
      | None \<Rightarrow> Resolved st)"

subsection \<open>Transactions\<close>

text \<open>
  The optional arguments of \<^verbatim>\<open>getTransactions\<close>: an absent or empty string is
  falsy and filters nothing; a \<^verbatim>\<open>Date\<close> object is always truthy, and an invalid one
  (the route builds the dates from the query string) compares false with every time.
\<close>

fun on_or_after :: "int \<Rightarrow> date \<Rightarrow> bool" where
  "on_or_after t (Date d) = (d \<le> t)"
| "on_or_after t InvalidDate = False"

fun on_or_before :: "int \<Rightarrow> date \<Rightarrow> bool" where
  "on_or_before t (Date d) = (t \<le> d)"
| "on_or_before t InvalidDate = False"

definition truthy :: "string option \<Rightarrow> bool" where
  "truthy s = (case s of None \<Rightarrow> False | Some v \<Rightarrow> v \<noteq> [])"

definition getTransactions ::
  "string option \<Rightarrow> string option \<Rightarrow> date option \<Rightarrow> date option \<Rightarrow> store \<Rightarrow> transaction list"
where
  "getTransactions accountId category startDate endDate st =
     (let ts0 = map snd (transactions st);
          ts1 = (if truthy accountId
                 then filter (\<lambda>t. Some (transaction_accountId t) = accountId) ts0 else ts0);
          ts2 = (if truthy category
                 then filter (\<lambda>t. Some (category_name (transaction_category t)) = category) ts1
                 else ts1);
          ts3 = (case startDate of
                   Some d \<Rightarrow> filter (\<lambda>t. on_or_after (transaction_createdAt t) d) ts2
                 | None \<Rightarrow> ts2);
          ts4 = (case endDate of
                   Some d \<Rightarrow> filter (\<lambda>t. on_or_before (transaction_createdAt t) d) ts3
                 | None \<Rightarrow> ts3)
      in array_sort (\<lambda>a b. transaction_createdAt b - transaction_createdAt a) ts4)"

definition getTransaction :: "string \<Rightarrow> store \<Rightarrow> transaction option" where
  "getTransaction uid st = map_of (transactions st) uid"

definition createTransaction ::
  "string \<Rightarrow> int \<Rightarrow> insert_transaction \<Rightarrow> store \<Rightarrow> (transaction \<times> store) promise"
where
  "createTransaction uid now insertTransaction st =
     (let new_transaction = \<lparr>transaction_id = uid,
            transaction_accountId = new_accountId insertTransaction,
            transaction_type = new_type insertTransaction,
            transaction_amount = new_amount insertTransaction,
            transaction_description = new_description insertTransaction,
            transaction_category = new_category insertTransaction,
            transaction_createdAt = now\<rparr>;
          st1 = st\<lparr>transactions := AList.update uid new_transaction (transactions st)\<rparr>
      in case map_of (accounts st1) (new_accountId insertTransaction) of
           Some account \<Rightarrow>
             (let currentBalance = parseFloat (account_balance account);
                  transactionAmount = parseFloat (new_amount insertTransaction);
                  newBalance = (if new_type insertTransaction = Expense
                                then number_sub currentBalance transactionAmount
                                else number_add currentBalance transactionAmount)
              in await (updateAccountBalance (new_accountId insertTransaction)
                          (toFixed 2 newBalance) st1)
                   (\<lambda>st2. Resolved (new_transaction, st2)))
         | None \<Rightarrow> Resolved (new_transaction, st1))"

definition deleteTransaction :: "string \<Rightarrow> store \<Rightarrow> store promise" where
  "deleteTransaction uid st =
     Resolved (st\<lparr>transactions := AList.delete uid (transactions st)\<rparr>)"

subsection \<open>Debts\<close>

definition getDebts :: "store \<Rightarrow> debt list" where
  "getDebts st = array_sort (\<lambda>a b. debt_createdAt b - debt_createdAt a) (map snd (debts st))"

definition getDebt :: "string \<Rightarrow> store \<Rightarrow> debt option" where
  "getDebt uid st = map_of (debts st) uid"

text \<open>
  The object literal of \<^verbatim>\<open>createDebt\<close> spreads the payload and then names
  \<^verbatim>\<open>id\<close>, \<^verbatim>\<open>settled: false\<close> and \<^verbatim>\<open>createdAt\<close>: a later property wins over a
  spread one, so nothing of \<open>extra_settled\<close> is left.
\<close>

definition createDebt :: "string \<Rightarrow> int \<Rightarrow> insert_debt \<Rightarrow> store \<Rightarrow> (debt \<times> store) promise" where
  "createDebt uid now insertDebt st =
     (let new_debt = \<lparr>debt_id = uid,
            debt_friendName = new_friendName insertDebt,
            debt_type = new_debt_type insertDebt,
            debt_amount = new_debt_amount insertDebt,
            debt_description = new_debt_description insertDebt,
            debt_settled = False,
            debt_createdAt = now\<rparr>
      in Resolved (new_debt, st\<lparr>debts := AList.update uid new_debt (debts st)\<rparr>))"

text \<open>\<^verbatim>\<open>Object.assign(debt, updates)\<close>: each property present in the update is copied.\<close>

definition assign_debt :: "debt \<Rightarrow> debt_updates \<Rightarrow> debt" where
  "assign_debt d u =
     \<lparr>debt_id = (case set_debt_id u of Some v \<Rightarrow> v | None \<Rightarrow> debt_id d),
      debt_friendName = (case set_debt_friendName u of Some v \<Rightarrow> v | None \<Rightarrow> debt_friendName d),
      debt_type = (case set_debt_type u of Some v \<Rightarrow> v | None \<Rightarrow> debt_type d),
      debt_amount = (case set_debt_amount u of Some v \<Rightarrow> v | None \<Rightarrow> debt_amount d),
      debt_description = (case set_debt_description u of Some v \<Rightarrow> v | None \<Rightarrow> debt_description d),
      debt_settled = (case set_debt_settled u of Some v \<Rightarrow> v | None \<Rightarrow> debt_settled d),
      debt_createdAt = (case set_debt_createdAt u of Some v \<Rightarrow> v | None \<Rightarrow> debt_createdAt d)\<rparr>"

definition updateDebt :: "string \<Rightarrow> debt_updates \<Rightarrow> store \<Rightarrow> store promise" where
  "updateDebt uid updates st =
     (case map_of (debts st) uid of
        Some d \<Rightarrow> Resolved (st\<lparr>debts := AList.update uid (assign_debt d updates) (debts st)\<rparr>)
      | None \<Rightarrow> Resolved st)"

definition deleteDebt :: "string \<Rightarrow> store \<Rightarrow> store promise" where
  "deleteDebt uid st = Resolved (st\<lparr>debts := AList.delete uid (debts st)\<rparr>)"

subsection \<open>Reminders\<close>

text \<open>
  The comparator of \<^verbatim>\<open>getReminders\<close> is
  \<^verbatim>\<open>a.dueDate.getTime() - b.dueDate.getTime()\<close>. On a value that is not a
  \<^verbatim>\<open>Date\<close> the call of \<^verbatim>\<open>getTime\<close> throws a \<^verbatim>\<open>TypeError\<close>, and the sort
  passes it on: the listing is rejected whenever the comparator is called, that is
  with two reminders or more, since a sort compares each element at least once. On
  an invalid \<^verbatim>\<open>Date\<close> the difference is \<^verbatim>\<open>NaN\<close>, which the sort takes for 0.
\<close>

fun is_Date :: "date_field \<Rightarrow> bool" where
  "is_Date (DateValue d) = True"
| "is_Date (JsonValue v) = False"

fun has_time :: "date_field \<Rightarrow> bool" where
  "has_time (DateValue (Date t)) = True"
| "has_time (DateValue InvalidDate) = False"
| "has_time (JsonValue v) = False"

fun time_difference :: "date_field \<Rightarrow> date_field \<Rightarrow> int" where
  "time_difference (DateValue (Date x)) (DateValue (Date y)) = x - y"
| "time_difference a b = 0"

definition dueDate_compare :: "reminder \<Rightarrow> reminder \<Rightarrow> int" where
  "dueDate_compare a b = time_difference (reminder_dueDate a) (reminder_dueDate b)"

text \<open>
  With valid dates only the comparator is consistent, and so it is when it gives 0
  on every pair; the result is then the stable sort. Otherwise (an invalid date
  among dates that differ) the comparator is not consistent and ECMAScript leaves
  the order to the implementation: \<open>engine_order\<close>, an input of the model, is the
  order the engine gives then.
\<close>

definition getReminders ::
  "(reminder list \<Rightarrow> reminder list) \<Rightarrow> store \<Rightarrow> reminder list promise"
where
  "getReminders engine_order st =
     (let rs = map snd (reminders st)
      in if length rs < 2 then Resolved rs
         else if list_all (\<lambda>r. is_Date (reminder_dueDate r)) rs then
           (if list_all (\<lambda>r. has_time (reminder_dueDate r)) rs
               \<or> list_all (\<lambda>a. list_all (\<lambda>b. dueDate_compare a b = 0) rs) rs
            then Resolved (array_sort dueDate_compare rs)
            else Resolved (engine_order rs))
         else Rejected TypeError)"

definition getReminder :: "string \<Rightarrow> store \<Rightarrow> reminder option" where
  "getReminder uid st = map_of (reminders st) uid"

definition assign_reminder :: "reminder \<Rightarrow> reminder_updates \<Rightarrow> reminder" where
  "assign_reminder r u =
     \<lparr>reminder_id = (case set_reminder_id u of Some v \<Rightarrow> v | None \<Rightarrow> reminder_id r),
      reminder_title = (case set_reminder_title u of Some v \<Rightarrow> v | None \<Rightarrow> reminder_title r),
      reminder_description =
        (case set_reminder_description u of Some v \<Rightarrow> v | None \<Rightarrow> reminder_description r),
      reminder_amount = (case set_reminder_amount u of Some v \<Rightarrow> v | None \<Rightarrow> reminder_amount r),
      reminder_dueDate = (case set_reminder_dueDate u of Some v \<Rightarrow> v | None \<Rightarrow> reminder_dueDate r),
      reminder_status = (case set_reminder_status u of Some v \<Rightarrow> v | None \<Rightarrow> reminder_status r),
      reminder_recurring =
        (case set_reminder_recurring u of Some v \<Rightarrow> v | None \<Rightarrow> reminder_recurring r),
      reminder_createdAt =
        (case set_reminder_createdAt u of Some v \<Rightarrow> v | None \<Rightarrow> reminder_createdAt r)\<rparr>"

definition updateReminder :: "string \<Rightarrow> reminder_updates \<Rightarrow> store \<Rightarrow> store promise" where
  "updateReminder uid updates st =
     (case map_of (reminders st) uid of
        Some r \<Rightarrow>
          Resolved (st\<lparr>reminders := AList.update uid (assign_reminder r updates) (reminders st)\<rparr>)
      | None \<Rightarrow> Resolved st)"

definition deleteReminder :: "string \<Rightarrow> store \<Rightarrow> store promise" where
  "deleteReminder uid st = Resolved (st\<lparr>reminders := AList.delete uid (reminders st)\<rparr>)"

section \<open>The debt totals of the analytics summary\<close>

text \<open>
  The route \<^verbatim>\<open>/api/analytics/summary\<close> reads \<^verbatim>\<open>getDebts()\<close> and reduces the
  unsettled debts of each direction with \<^verbatim>\<open>sum + parseFloat(d.amount)\<close> from 0.
\<close>

definition totalOwed :: "debt list \<Rightarrow> number" where
  "totalOwed ds =
     foldl (\<lambda>sum d. number_add sum (parseFloat (debt_amount d))) (Finite 0)
       (filter (\<lambda>d. debt_type d = Owe \<and> \<not> debt_settled d) ds)"

definition totalOwedToUser :: "debt list \<Rightarrow> number" where
  "totalOwedToUser ds =
     foldl (\<lambda>sum d. number_add sum (parseFloat (debt_amount d))) (Finite 0)
       (filter (\<lambda>d. debt_type d = Owed \<and> \<not> debt_settled d) ds)"

definition summary_debt_totals :: "store \<Rightarrow> number \<times> number" where
  "summary_debt_totals st = (let ds = getDebts st in (totalOwed ds, totalOwedToUser ds))"

section \<open>Numbers: parsing, rounding and printing\<close>

subsection \<open>Digits and the two-decimal form\<close>

lemma digit_cases: "d < 10 \<Longrightarrow> d \<in> {0, 1, 2, 3, 4, 5, 6, 7, 8, 9::nat}"
  by auto

lemma digit_char_is_digit: "d < 10 \<Longrightarrow> is_digit (digit_char d)"
  using digit_cases [of d] by (auto simp: digit_char_def is_digit_def)

lemma digit_val_digit_char: "d < 10 \<Longrightarrow> digit_val (digit_char d) = d"
  using digit_cases [of d] by (auto simp: digit_char_def digit_val_def)

lemma digits_of_digits: "c \<in> set (digits_of n) \<Longrightarrow> is_digit c"
proof (induction n arbitrary: c rule: digits_of.induct)
  case (1 n)
  show ?case
  proof (cases "n < 10")
    case True
    with "1.prems" show ?thesis
      by (simp add: digits_of.simps [of n] digit_char_is_digit)
  next
    case False
    with "1.prems" "1.IH" show ?thesis
      by (auto simp add: digits_of.simps [of n] digit_char_is_digit)
  qed
qed

lemma digits_of_nonempty: "digits_of n \<noteq> []"
  by (simp add: digits_of.simps [of n])

lemma digits_value_snoc: "digits_value (ds @ [c]) = 10 * digits_value ds + digit_val c"
  by (simp add: digits_value_def)

lemma digits_value_digits_of: "digits_value (digits_of n) = n"
proof (induction n rule: digits_of.induct)
  case (1 n)
  show ?case
  proof (cases "n < 10")
    case True
    then show ?thesis
      by (simp add: digits_of.simps [of n] digits_value_def digit_val_digit_char)
  next
    case False
    with "1.IH" show ?thesis
      by (simp add: digits_of.simps [of n] digits_value_snoc digit_val_digit_char)
  qed
qed

lemma digits_value_zeros: "digits_value (replicate j (CHR ''0'') @ ds) = digits_value ds"
  by (induction j) (simp_all add: digits_value_def digit_val_def)

lemma fixed_digits_shape:
  "\<exists>ip fp. fixed_digits 2 n = ip @ ''.'' @ fp \<and> ip \<noteq> [] \<and> (\<forall>c\<in>set ip. is_digit c) \<and>
     (\<forall>c\<in>set fp. is_digit c) \<and> length fp = 2 \<and> digits_value (ip @ fp) = n"
proof -
  define m where "m = digits_of n"
  define m' where "m' = (if length m \<le> 2 then replicate (3 - length m) (CHR ''0'') @ m else m)"
  have len: "3 \<le> length m'"
    by (auto simp: m'_def)
  have z: "is_digit (CHR ''0'')"
    by (simp add: is_digit_def)
  have dig: "\<forall>c\<in>set m'. is_digit c"
    by (auto simp: m'_def m_def digits_of_digits z)
  have val: "digits_value m' = n"
    by (simp add: m'_def m_def digits_value_zeros digits_value_digits_of)
  have eq: "fixed_digits 2 n = take (length m' - 2) m' @ ''.'' @ drop (length m' - 2) m'"
    by (simp add: fixed_digits_def Let_def m'_def m_def)
  show ?thesis
  proof (intro exI conjI)
    show "fixed_digits 2 n = take (length m' - 2) m' @ ''.'' @ drop (length m' - 2) m'"
      by (rule eq)
    show "take (length m' - 2) m' \<noteq> []"
      using len by auto
    show "\<forall>c\<in>set (take (length m' - 2) m'). is_digit c"
      using dig by (meson in_set_takeD)
    show "\<forall>c\<in>set (drop (length m' - 2) m'). is_digit c"
      using dig by (meson in_set_dropD)
    show "length (drop (length m' - 2) m') = 2"
      using len by simp
    show "digits_value (take (length m' - 2) m' @ drop (length m' - 2) m') = n"
      by (simp add: val)
  qed
qed

text \<open>
  \<^verbatim>\<open>parseFloat\<close> reads the two-decimal form of \<open>c\<close> hundredths as the double
  nearest to \<open>c / 100\<close>.
\<close>

lemma str_unsigned_decimal_point:
  assumes "ip \<noteq> []" "\<forall>c\<in>set ip. is_digit c" "\<forall>c\<in>set fp. is_digit c"
  shows "str_unsigned_decimal (ip @ ''.'' @ fp) =
           Some (of_nat (digits_value (ip @ fp)) * pow10 (- int (length fp)))"
proof -
  have nd: "\<not> is_digit (CHR ''.'')"
    by (simp add: is_digit_def)
  have t: "takeWhile is_digit (ip @ CHR ''.'' # fp) = ip"
    using assms(2) nd by (simp add: takeWhile_append2)
  have d: "dropWhile is_digit (ip @ CHR ''.'' # fp) = CHR ''.'' # fp"
    using assms(2) nd by (simp add: dropWhile_append2)
  have tf: "takeWhile is_digit fp = fp"
    using assms(3) by (simp add: takeWhile_eq_all_conv)
  have df: "dropWhile is_digit fp = []"
    using assms(3) by simp
  show ?thesis
    using assms(1) by (simp add: str_unsigned_decimal_def Let_def t d tf df exponent_part_def)
qed

lemma digit_first:
  assumes "is_digit c"
  shows "\<not> is_whitespace c" "c \<noteq> CHR ''-''" "c \<noteq> CHR ''+''" "c \<noteq> CHR ''I''"
  using assms by (auto simp: is_digit_def is_whitespace_def)

lemma parseFloat_fixed_digits:
  "parseFloat (fixed_digits 2 n) = round_double (of_nat n / 100)"
proof -
  obtain ip fp where s: "fixed_digits 2 n = ip @ ''.'' @ fp" and ne: "ip \<noteq> []"
    and di: "\<forall>c\<in>set ip. is_digit c" and df: "\<forall>c\<in>set fp. is_digit c"
    and l: "length fp = 2" and v: "digits_value (ip @ fp) = n"
    using fixed_digits_shape [of n] by blast
  obtain c ip' where ip: "ip = c # ip'"
    using ne by (cases ip) auto
  have c: "is_digit c"
    using di ip by simp
  have v': "str_unsigned_decimal (ip @ ''.'' @ fp) = Some (of_nat n / 100)"
    using str_unsigned_decimal_point [OF ne di df] by (simp add: v l pow10_def)
  show ?thesis
    unfolding s parseFloat_def Let_def
    using digit_first [OF c] v' by (simp add: ip)
qed

lemma parseFloat_minus_fixed_digits:
  "parseFloat (CHR ''-'' # fixed_digits 2 n) = round_double (- (of_nat n / 100))"
proof -
  obtain ip fp where s: "fixed_digits 2 n = ip @ ''.'' @ fp" and ne: "ip \<noteq> []"
    and di: "\<forall>c\<in>set ip. is_digit c" and df: "\<forall>c\<in>set fp. is_digit c"
    and l: "length fp = 2" and v: "digits_value (ip @ fp) = n"
    using fixed_digits_shape [of n] by blast
  obtain c ip' where ip: "ip = c # ip'"
    using ne by (cases ip) auto
  have c: "is_digit c"
    using di ip by simp
  have v': "str_unsigned_decimal (ip @ ''.'' @ fp) = Some (of_nat n / 100)"
    using str_unsigned_decimal_point [OF ne di df] by (simp add: v l pow10_def)
  have w: "\<not> is_whitespace (CHR ''-'')"
    by (simp add: is_whitespace_def)
  show ?thesis
    unfolding s parseFloat_def Let_def
    using digit_first [OF c] v' w by (simp add: ip)
qed

lemma parseFloat_decimal2: "parseFloat (decimal2 c) = round_double (of_int c / 100)"
proof (cases "c < 0")
  case True
  then have "of_int c = - (of_nat (nat \<bar>c\<bar>) :: rat)"
    by simp
  with True show ?thesis
    by (simp add: decimal2_def parseFloat_minus_fixed_digits del: of_nat_nat)
next
  case False
  then have "of_int c = (of_nat (nat \<bar>c\<bar>) :: rat)"
    by simp
  with False show ?thesis
    by (simp add: decimal2_def parseFloat_fixed_digits del: of_nat_nat)
qed

subsection \<open>Rounding to a double\<close>

lemma round_double_minus: "round_double (- x) = number_neg (round_double x)"
  by (cases "0 < x") (auto simp: round_double_def Let_def)

lemma round_half_even_error: "\<bar>of_int (round_half_even t) - t\<bar> \<le> 1 / 2"
proof -
  have "of_int \<lfloor>t\<rfloor> \<le> t" "t < of_int \<lfloor>t\<rfloor> + 1"
    by linarith+
  then show ?thesis
    by (auto simp: round_half_even_def Let_def)
qed

lemma pow2_powi: "pow2 e = 2 powi e"
  by (simp add: pow2_def power_int_def field_simps)

lemma pow2_mono: "a \<le> b \<Longrightarrow> pow2 a \<le> pow2 b"
  by (simp add: pow2_powi power_int_increasing)

lemma pow2_pos: "0 < pow2 e"
  by (simp add: pow2_powi)

lemma floor_log2_le:
  assumes "0 < x" "x < 2 ^ 35"
  shows "floor_log2 x \<le> 34"
proof (cases "1 \<le> x")
  case True
  define m where "m = \<lfloor>x\<rfloor>"
  have m: "0 < m" "of_int m \<le> x"
    using True by (auto simp: m_def)
  have "(2::int) ^ nat (bitlen m - 1) \<le> m"
    using bitlen_bounds [OF m(1)] by simp
  then have "(of_int ((2::int) ^ nat (bitlen m - 1)) :: rat) \<le> of_int m"
    by (simp only: of_int_le_iff)
  moreover have "(of_int ((2::int) ^ nat (bitlen m - 1)) :: rat) = 2 ^ nat (bitlen m - 1)"
    by simp
  ultimately have "(2::rat) ^ nat (bitlen m - 1) \<le> of_int m"
    by (simp only:)
  also have "\<dots> \<le> x"
    by (rule m(2))
  also have "\<dots> < 2 ^ 35"
    by (rule assms(2))
  finally have lt: "(2::rat) ^ nat (bitlen m - 1) < 2 ^ 35" .
  have "nat (bitlen m - 1) < 35"
  proof (rule ccontr)
    assume "\<not> nat (bitlen m - 1) < 35"
    then have "(2::rat) ^ 35 \<le> 2 ^ nat (bitlen m - 1)"
      by (intro power_increasing) auto
    with lt show False
      by linarith
  qed
  then show ?thesis
    using True by (simp add: floor_log2_def m_def)
next
  case False
  then show ?thesis
    using bitlen_nonneg [of "\<lceil>1 / x\<rceil> - 1"] by (simp add: floor_log2_def)
qed

text \<open>
  Below \<open>2\<^sup>3\<^sup>5\<close> the doubles are at most \<open>2\<^sup>-\<^sup>1\<^sup>8\<close> apart, so rounding moves a
  value by at most \<open>2\<^sup>-\<^sup>1\<^sup>9\<close>.
\<close>

lemma round_double_error:
  assumes "\<bar>x\<bar> < 2 ^ 35"
  shows "\<exists>z. round_double x = Finite z \<and> \<bar>z - x\<bar> \<le> 1 / 2 ^ 19"
proof (cases "x = 0")
  case True
  then show ?thesis by (simp add: round_double_def)
next
  case False
  define e where "e = max (floor_log2 \<bar>x\<bar>) (- 1022)"
  define q where "q = pow2 (e - 52)"
  define y where "y = of_int (round_half_even (\<bar>x\<bar> / q)) * q"
  have e: "e \<le> 34"
    using floor_log2_le [of "\<bar>x\<bar>"] False assms by (simp add: e_def)
  have q0: "0 < q"
    by (simp add: q_def pow2_pos)
  have "q \<le> pow2 (- 18)"
    unfolding q_def using e by (intro pow2_mono) simp
  then have q: "q \<le> 1 / 2 ^ 18"
    by (simp add: pow2_def)
  have "y - \<bar>x\<bar> = (of_int (round_half_even (\<bar>x\<bar> / q)) - \<bar>x\<bar> / q) * q"
    using q0 by (simp add: y_def field_simps)
  then have "\<bar>y - \<bar>x\<bar>\<bar> = \<bar>of_int (round_half_even (\<bar>x\<bar> / q)) - \<bar>x\<bar> / q\<bar> * q"
    using q0 by (simp add: abs_mult)
  also have "\<dots> \<le> 1 / 2 * q"
    using q0 round_half_even_error [of "\<bar>x\<bar> / q"] by (intro mult_right_mono) auto
  finally have err: "\<bar>y - \<bar>x\<bar>\<bar> \<le> 1 / 2 ^ 19"
    using q by simp
  have e1: "y - \<bar>x\<bar> \<le> 1 / 2 ^ 19"
    using err by (rule abs_le_D1)
  have c1: "(1::rat) / 2 ^ 19 \<le> 1"
    by simp
  have c2: "(2::rat) ^ 35 + 1 \<le> 2 ^ 36"
    by simp
  have "y < 2 ^ 36"
    using e1 c1 c2 assms by linarith
  also have "(2::rat) ^ 36 \<le> pow2 1024"
    by (simp add: pow2_def power_increasing)
  finally have fin: "\<not> pow2 1024 \<le> y"
    by simp
  have r: "round_double x = Finite (sgn x * y)"
    using False fin by (simp add: round_double_def Let_def e_def q_def y_def)
  have "\<bar>sgn x * y - x\<bar> = \<bar>y - \<bar>x\<bar>\<bar>"
    using False by (cases "0 < x") (auto simp: sgn_if)
  with err r show ?thesis
    by simp
qed

text \<open>
  \<^verbatim>\<open>toFixed(2)\<close> of a value less than half a hundredth away from \<open>c\<close> hundredths
  is the two-decimal form of \<open>c\<close>.
\<close>

lemma toFixed_near:
  assumes "\<bar>z - of_int c / 100\<bar> < 1 / 200" "\<bar>c\<bar> \<le> 10 ^ 20" "c = 0 \<Longrightarrow> 0 \<le> z"
  shows "toFixed 2 (Finite z) = decimal2 c"
proof -
  define r where "r = (of_int c :: rat)"
  have near: "\<bar>z - r / 100\<bar> < 1 / 200"
    using assms(1) by (simp add: r_def)
  have "(of_int \<bar>c\<bar> :: rat) \<le> of_int (10 ^ 20)"
    using assms(2) by (simp only: of_int_le_iff)
  then have rb: "\<bar>r\<bar> \<le> 10 ^ 20"
    by (simp add: r_def)
  have neg: "r \<le> - 1" if "c < 0"
  proof -
    from that have "c \<le> - 1" by simp
    then have "(of_int c :: rat) \<le> of_int (- 1)"
      by (simp only: of_int_le_iff)
    then show ?thesis by (simp add: r_def)
  qed
  have pos: "1 \<le> r" if "0 < c"
  proof -
    from that have "1 \<le> c" by simp
    then have "(of_int 1 :: rat) \<le> of_int c"
      by (simp only: of_int_le_iff)
    then show ?thesis by (simp add: r_def)
  qed
  have sgn: "z < 0 \<longleftrightarrow> c < 0"
  proof (cases "c < 0")
    case True
    with neg near have "z < 0" by linarith
    with True show ?thesis by simp
  next
    case False
    show ?thesis
    proof (cases "c = 0")
      case True
      with assms(3) show ?thesis by simp
    next
      case nz: False
      with False have "0 < c" by simp
      with pos near have "0 < z" by linarith
      with False show ?thesis by simp
    qed
  qed
  have c5: "(10::rat) ^ 20 / 100 + 1 / 200 < 10 ^ 21"
    by simp
  have small: "\<not> 10 ^ 21 \<le> \<bar>z\<bar>"
    using near rb c5 by linarith
  have ar: "(of_int \<bar>c\<bar> :: rat) = \<bar>r\<bar>"
    by (simp add: r_def)
  have "\<lfloor>\<bar>z\<bar> * 100 + 1 / 2\<rfloor> = \<bar>c\<bar>"
  proof (rule floor_unique)
    show "of_int \<bar>c\<bar> \<le> \<bar>z\<bar> * 100 + 1 / 2"
      unfolding ar using near by linarith
    show "\<bar>z\<bar> * 100 + 1 / 2 < of_int \<bar>c\<bar> + 1"
      unfolding ar using near by linarith
  qed
  then show ?thesis
    using small sgn by (simp add: toFixed_def decimal2_def Let_def)
qed

subsection \<open>Adding two amounts\<close>

lemma number_add_Finite:
  assumes "\<bar>x\<bar> \<le> 10 ^ 10" "\<bar>y\<bar> \<le> 10 ^ 10"
  shows "\<exists>x' y' z. round_double x = Finite x' \<and> round_double y = Finite y' \<and>
           number_add (Finite x') (Finite y') = Finite z \<and>
           \<bar>z - (x + y)\<bar> < 1 / 200 \<and> (x + y = 0 \<longrightarrow> z = 0)"
proof -
  have c0: "(10::rat) ^ 10 < 2 ^ 35"
    by simp
  have c1: "(1::rat) / 2 ^ 19 \<le> 1"
    by simp
  have c3: "2 * (10::rat) ^ 10 + 2 < 2 ^ 35"
    by simp
  have c4: "3 * (1 / 2 ^ 19) < (1::rat) / 200"
    by simp
  have "\<bar>x\<bar> < 2 ^ 35" "\<bar>y\<bar> < 2 ^ 35"
    using assms c0 by linarith+
  then obtain x' y' where x': "round_double x = Finite x'" "\<bar>x' - x\<bar> \<le> 1 / 2 ^ 19"
    and y': "round_double y = Finite y'" "\<bar>y' - y\<bar> \<le> 1 / 2 ^ 19"
    using round_double_error by blast
  have "\<bar>x' + y'\<bar> < 2 ^ 35"
    using assms x'(2) y'(2) c1 c3 by linarith
  then obtain z where z: "round_double (x' + y') = Finite z" "\<bar>z - (x' + y')\<bar> \<le> 1 / 2 ^ 19"
    using round_double_error by blast
  have near: "\<bar>z - (x + y)\<bar> < 1 / 200"
    using x'(2) y'(2) z(2) c4 by linarith
  have zero: "z = 0" if "x + y = 0"
  proof -
    from that have "y = - x" by simp
    then have "round_double y = number_neg (round_double x)"
      by (simp add: round_double_minus)
    then have "y' = - x'"
      using x'(1) y'(1) by simp
    then have "round_double (x' + y') = Finite 0"
      by (simp add: round_double_def)
    with z(1) show ?thesis by simp
  qed
  show ?thesis
    using x'(1) y'(1) z(1) near zero by auto
qed

lemma balance_after:
  assumes "\<bar>b\<bar> \<le> 10 ^ 12" "\<bar>a\<bar> \<le> 10 ^ 12"
  shows "toFixed 2 (number_add (parseFloat (decimal2 b)) (parseFloat (decimal2 a))) =
           decimal2 (b + a)"
proof -
  have "(of_int \<bar>b\<bar> :: rat) \<le> of_int (10 ^ 12)" "(of_int \<bar>a\<bar> :: rat) \<le> of_int (10 ^ 12)"
    using assms by (simp_all only: of_int_le_iff)
  then have "\<bar>of_int b / 100 :: rat\<bar> \<le> 10 ^ 10" "\<bar>of_int a / 100 :: rat\<bar> \<le> 10 ^ 10"
    by simp_all
  from number_add_Finite [OF this] obtain x' y' z where
    x': "round_double (of_int b / 100) = Finite x'" and
    y': "round_double (of_int a / 100) = Finite y'" and
    z: "number_add (Finite x') (Finite y') = Finite z" and
    near: "\<bar>z - (of_int b / 100 + of_int a / 100)\<bar> < 1 / 200" and
    zero: "of_int b / 100 + of_int a / 100 = (0::rat) \<longrightarrow> z = 0"
    by blast
  have n: "\<bar>z - of_int (b + a) / 100\<bar> < 1 / 200"
    using near by (simp add: add_divide_distrib)
  have m: "\<bar>b + a\<bar> \<le> 10 ^ 20"
    using assms by simp
  have s: "0 \<le> z" if "b + a = 0"
  proof -
    have "(of_int (b + a) :: rat) = 0"
      using that by simp
    then have "of_int b / 100 + of_int a / 100 = (0::rat)"
      by (simp add: add_divide_distrib [symmetric])
    with zero show ?thesis by simp
  qed
  have z': "round_double (x' + y') = Finite z"
    using z by simp
  show ?thesis
    using toFixed_near [OF n m s] by (simp add: parseFloat_decimal2 x' y' z')
qed

lemma decimal2_uminus_parse: "number_neg (parseFloat (decimal2 a)) = parseFloat (decimal2 (- a))"
  by (simp add: parseFloat_decimal2 round_double_minus [symmetric])

lemma balance_after_expense:
  assumes "\<bar>b\<bar> \<le> 10 ^ 12" "\<bar>a\<bar> \<le> 10 ^ 12"
  shows "toFixed 2 (number_sub (parseFloat (decimal2 b)) (parseFloat (decimal2 a))) =
           decimal2 (b - a)"
  using balance_after [of b "- a"] assms
  by (simp add: number_sub_def decimal2_uminus_parse)

subsection \<open>The value of a rounding\<close>

text \<open>
  \<^const>\<open>floor_log2\<close> is the binary exponent, and \<^const>\<open>round_double\<close> of a value in the
  normal range is the multiple of the spacing nearest to it.
\<close>

lemma pow2_nonpos: "e \<le> 0 \<Longrightarrow> pow2 e = 1 / 2 ^ nat (- e)"
  by (simp add: pow2_def)

lemma pow2_nonneg: "0 \<le> e \<Longrightarrow> pow2 e = 2 ^ nat e"
  by (simp add: pow2_def)

lemma bitlen_eqI:
  assumes "0 < w" "2 ^ (nat w - 1) \<le> m" "m < 2 ^ nat w"
  shows "bitlen m = w"
proof (rule antisym)
  show "bitlen m \<le> w"
    using assms by (simp add: bitlen_le_iff_power)
  show "w \<le> bitlen m"
    using assms by (simp add: bitlen_ge_iff_power)
qed

lemma floor_log2_unique:
  assumes "pow2 e \<le> x" "x < pow2 (e + 1)"
  shows "floor_log2 x = e"
proof (cases "1 \<le> x")
  case True
  have e: "0 \<le> e"
  proof (rule ccontr)
    assume "\<not> 0 \<le> e"
    then have "pow2 (e + 1) \<le> pow2 0"
      by (intro pow2_mono) simp
    with assms(2) True show False
      by (simp add: pow2_def)
  qed
  have lo: "of_int (2 ^ nat e) \<le> x"
    using assms(1) e by (simp add: pow2_nonneg)
  have hi: "x < of_int (2 ^ nat (e + 1))"
    using assms(2) e by (simp add: pow2_nonneg)
  have "bitlen \<lfloor>x\<rfloor> = e + 1"
  proof (rule bitlen_eqI)
    show "0 < e + 1"
      using e by simp
    have "nat (e + 1) - 1 = nat e"
      using e by simp
    then show "2 ^ (nat (e + 1) - 1) \<le> \<lfloor>x\<rfloor>"
      using lo by (simp only: le_floor_iff)
    show "\<lfloor>x\<rfloor> < 2 ^ nat (e + 1)"
      using hi by (simp only: floor_less_iff)
  qed
  with True show ?thesis
    by (simp add: floor_log2_def)
next
  case False
  have x0: "0 < x"
    using assms(1) pow2_pos [of e] by linarith
  have e: "e < 0"
  proof (rule ccontr)
    assume "\<not> e < 0"
    then have "pow2 0 \<le> pow2 e"
      by (intro pow2_mono) simp
    with assms(1) False show False
      by (simp add: pow2_def)
  qed
  define k where "k = nat (- e)"
  have k: "0 < k" "int k = - e"
    using e by (simp_all add: k_def)
  have p1: "pow2 e = 1 / 2 ^ k"
    using e by (simp add: pow2_nonpos k_def)
  have p2: "pow2 (e + 1) = 1 / 2 ^ (k - 1)"
    using e by (simp add: pow2_nonpos k_def nat_diff_distrib')
  have lo: "1 / x \<le> of_int (2 ^ k)"
  proof -
    have "1 \<le> x * 2 ^ k"
      using assms(1) by (simp add: p1 field_simps)
    then show ?thesis
      using x0 by (simp add: field_simps)
  qed
  have hi: "of_int (2 ^ (k - 1)) < 1 / x"
  proof -
    have "x * 2 ^ (k - 1) < 1"
      using assms(2) unfolding p2 by (simp add: field_simps)
    then show ?thesis
      using x0 by (simp add: field_simps)
  qed
  have "bitlen (\<lceil>1 / x\<rceil> - 1) = int k"
  proof (rule bitlen_eqI)
    show "0 < int k"
      using k by simp
    have "2 ^ (k - 1) < \<lceil>1 / x\<rceil>"
      using hi by (simp only: less_ceiling_iff)
    then show "2 ^ (nat (int k) - 1) \<le> \<lceil>1 / x\<rceil> - 1"
      by simp
    have "\<lceil>1 / x\<rceil> \<le> 2 ^ k"
      using lo by (simp only: ceiling_le_iff)
    then show "\<lceil>1 / x\<rceil> - 1 < 2 ^ nat (int k)"
      by simp
  qed
  with False k show ?thesis
    by (simp add: floor_log2_def)
qed

lemma round_half_even_nearest:
  assumes "\<bar>t - of_int n\<bar> < 1 / 2"
  shows "round_half_even t = n"
proof (cases "of_int n \<le> t")
  case True
  have "\<lfloor>t\<rfloor> = n"
    using True assms by (intro floor_unique) linarith+
  moreover have "t - of_int n < 1 / 2"
    using assms by linarith
  ultimately show ?thesis
    by (simp add: round_half_even_def Let_def)
next
  case False
  have c: "(of_int (n - 1) :: rat) = of_int n - 1"
    by simp
  have f: "\<lfloor>t\<rfloor> = n - 1"
  proof (rule floor_unique)
    show "of_int (n - 1) \<le> t"
      unfolding c using assms by linarith
    show "t < of_int (n - 1) + 1"
      unfolding c using False by linarith
  qed
  have "1 / 2 < t - of_int (n - 1)"
    unfolding c using assms False by linarith
  with f show ?thesis
    by (simp add: round_half_even_def Let_def)
qed

lemma round_double_normal:
  assumes "pow2 e \<le> x" "x < pow2 (e + 1)" "- 1022 \<le> e" "e \<le> 1022"
    and "\<bar>x / pow2 (e - 52) - of_int n\<bar> < 1 / 2"
  shows "round_double x = Finite (of_int n * pow2 (e - 52))"
proof -
  define q where "q = pow2 (e - 52)"
  have x0: "0 < x"
    using assms(1) pow2_pos [of e] by linarith
  have q0: "0 < q"
    by (simp add: q_def pow2_pos)
  have fl: "floor_log2 \<bar>x\<bar> = e"
    using x0 assms(1,2) by (simp add: floor_log2_unique)
  have rh: "round_half_even (\<bar>x\<bar> / q) = n"
    using x0 assms(5) by (simp add: round_half_even_nearest q_def)
  have "of_int n - x / q < 1 / 2"
    using assms(5) unfolding q_def by linarith
  then have "(of_int n - x / q) * q < 1 / 2 * q"
    using q0 by (simp only: mult_less_cancel_right_pos)
  then have d: "of_int n * q - x < 1 / 2 * q"
    using q0 by (simp add: left_diff_distrib)
  have "q \<le> pow2 1023" "pow2 (e + 1) \<le> pow2 1023"
    unfolding q_def using assms(4) by (intro pow2_mono; simp)+
  moreover have "pow2 1024 = 2 * pow2 1023"
    by (simp add: pow2_def)
  ultimately have "of_int n * q < pow2 1024"
    using d assms(2) q0 by linarith
  then show ?thesis
    using x0 assms(3) fl rh by (simp add: round_double_def Let_def q_def)
qed

text \<open>
  One sum that is not exact: the double nearest to 99999999999999.99 is
  99999999999999.984375, and the sum with 2450 prints as 100000000002449.98.
\<close>

lemma ex_seed: "round_double 2450 = Finite 2450"
  using round_double_normal [of 11 2450 5387606976102400] by (simp add: pow2_def)

lemma ex_amount: "round_double (9999999999999999 / 100) = Finite (6399999999999999 / 64)"
  using round_double_normal [of 46 "9999999999999999 / 100" 6399999999999999]
  by (simp add: pow2_def)

lemma ex_sum: "round_double (2450 + 6399999999999999 / 64) = Finite (6400000000156799 / 64)"
  using round_double_normal [of 46 "2450 + 6399999999999999 / 64" 6400000000156799]
  by (simp add: pow2_def)

lemma ex_toFixed: "toFixed 2 (Finite (6400000000156799 / 64)) = ''100000000002449.98''"
proof -
  have "toFixed 2 (Finite (6400000000156799 / 64)) = decimal2 10000000000244998"
    by (rule toFixed_near) simp_all
  also have "\<dots> = ''100000000002449.98''"
    by (simp add: decimal2_def fixed_digits_def Let_def digits_of.simps digit_char_def)
  finally show ?thesis .
qed

lemma inexact_sum:
  "toFixed 2 (number_add (parseFloat ''2450.00'') (parseFloat ''99999999999999.99'')) =
     ''100000000002449.98''"
proof -
  have p1: "parseFloat ''2450.00'' = Finite 2450"
    by (simp add: parseFloat_def str_unsigned_decimal_def Let_def is_digit_def
        digits_value_def digit_val_def exponent_part_def pow10_def is_whitespace_def ex_seed)
  have p2: "parseFloat ''99999999999999.99'' = Finite (6399999999999999 / 64)"
    by (simp add: parseFloat_def str_unsigned_decimal_def Let_def is_digit_def
        digits_value_def digit_val_def exponent_part_def pow10_def is_whitespace_def ex_amount)
  show ?thesis
    by (simp only: p1 p2 number_add.simps ex_sum ex_toFixed)
qed

section \<open>Lists, maps and sorting\<close>

lemma array_sort_key: "array_sort (\<lambda>a b. f a - f b) xs = sort_key f xs"
proof -
  have "insert_by (\<lambda>a b. f a - f b) x ys = insort_key f x ys" for x ys
    by (induction ys) auto
  then have "insert_by (\<lambda>a b. f a - f b) = insort_key f"
    by (intro ext)
  then show ?thesis
    by (simp add: array_sort_def sort_key_def)
qed

lemma array_sort_key_desc: "array_sort (\<lambda>a b. f b - f a) xs = sort_key (\<lambda>x. - f x) xs"
  using array_sort_key [of "\<lambda>x. - f x" xs] by simp

lemma insert_by_insort_key:
  assumes "\<And>y. y \<in> set ys \<Longrightarrow> cmp x y = f x - f y"
  shows "insert_by cmp x ys = insort_key f x ys"
  using assms by (induction ys) auto

lemma array_sort_key_on:
  assumes "\<And>a b. a \<in> set xs \<Longrightarrow> b \<in> set xs \<Longrightarrow> cmp a b = f a - f b"
  shows "array_sort cmp xs = sort_key f xs"
  using assms
proof (induction xs)
  case Nil
  then show ?case by (simp add: array_sort_def)
next
  case (Cons x xs)
  have ih: "array_sort cmp xs = sort_key f xs"
    using Cons by simp
  have "insert_by cmp x (sort_key f xs) = insort_key f x (sort_key f xs)"
    by (rule insert_by_insort_key) (simp add: Cons.prems)
  with ih show ?case
    by (simp add: array_sort_def)
qed

lemma array_sort_short: "length xs < 2 \<Longrightarrow> array_sort cmp xs = xs"
  by (cases xs) (simp_all add: array_sort_def)

lemma filter4:
  "filter P4 (filter P3 (filter P2 (filter P1 xs))) =
     filter (\<lambda>t. P1 t \<and> P2 t \<and> P3 t \<and> P4 t) xs"
  by (simp add: conj_assoc)

lemma sort_key_strict:
  fixes f :: "'a \<Rightarrow> int"
  assumes "distinct (map f xs)"
  shows "sorted_wrt (\<lambda>a b. f a < f b) (sort_key f xs)"
proof -
  have "mset (map f (sort_key f xs)) = mset (map f xs)"
    by simp
  then have "distinct (map f (sort_key f xs))"
    using assms mset_eq_imp_distinct_iff by blast
  moreover have "sorted (map f (sort_key f xs))"
    by (rule sorted_sort_key)
  ultimately have "sorted_wrt (<) (map f (sort_key f xs))"
    by (simp add: strict_sorted_iff)
  then show ?thesis
    by (simp add: sorted_wrt_map)
qed

lemma sort_key_desc_filter_strict:
  fixes f :: "'a \<Rightarrow> int"
  assumes "distinct (map f xs)"
  shows "sorted_wrt (\<lambda>a b. f b < f a) (sort_key (\<lambda>x. - f x) (filter P xs))"
proof -
  have "distinct (map f (filter P xs))"
    by (rule distinct_map_filter [OF assms])
  then have "distinct (map (\<lambda>x. - f x) (filter P xs))"
    by (simp add: distinct_map inj_on_def)
  from sort_key_strict [OF this] show ?thesis
    by simp
qed

lemma sort_key_weak:
  fixes f :: "'a \<Rightarrow> int"
  shows "sorted_wrt (\<lambda>a b. f a \<le> f b) (sort_key f xs)"
proof -
  have "sorted (map f (sort_key f xs))"
    by (rule sorted_sort_key)
  then show ?thesis
    by (simp add: sorted_wrt_map)
qed

lemma delete_absent: "map_of al k = None \<Longrightarrow> AList.delete k al = al"
  by (simp add: map_of_eq_None_iff)

lemma map_of_Some_key: "map_of al k = Some v \<Longrightarrow> k \<in> fst ` set al"
  by (force dest: map_of_SomeD)

lemma filter_update_delete:
  assumes "distinct (map fst al)" "\<not> Q v" "k \<in> fst ` set al"
  shows "filter Q (map snd (AList.update k v al)) = filter Q (map snd (AList.delete k al))"
  using assms
proof (induction al)
  case Nil
  then show ?case by simp
next
  case (Cons p al)
  show ?case
  proof (cases "fst p = k")
    case True
    with Cons.prems have "k \<notin> fst ` set al" by auto
    then have "AList.delete k al = al" by simp
    with True Cons.prems show ?thesis
      by (cases p) (simp add: AList.delete_eq)
  next
    case False
    with Cons show ?thesis
      by (cases p) (auto simp add: AList.delete_eq)
  qed
qed

lemma filter_map_snd_filter:
  assumes "\<And>x. Q x \<Longrightarrow> U x"
  shows "filter Q (map snd (filter (\<lambda>e. U (snd e)) al)) = filter Q (map snd al)"
  using assms by (induction al) auto

section \<open>The Map invariant\<close>

text \<open>
  The keys of each collection stay distinct under every method of the store, and
  they are distinct in a new store.
\<close>

lemma distinct_keys_MemStorage: "distinct_keys (MemStorage id1 now1 id2 now2)"
  by (simp add: distinct_keys_def MemStorage_def initializeDefaults_def empty_store_def Let_def)

lemma distinct_keys_createTransaction:
  assumes "distinct_keys st" "createTransaction uid now p st = Resolved (t, st')"
  shows "distinct_keys st'"
  using assms
  by (auto simp: distinct_keys_def createTransaction_def updateAccountBalance_def Let_def
      distinct_update split: option.splits)

lemma distinct_keys_deleteTransaction:
  assumes "distinct_keys st" "deleteTransaction uid st = Resolved st'"
  shows "distinct_keys st'"
  using assms by (auto simp: distinct_keys_def deleteTransaction_def distinct_delete)

lemma distinct_keys_createDebt:
  assumes "distinct_keys st" "createDebt uid now p st = Resolved (d, st')"
  shows "distinct_keys st'"
  using assms by (auto simp: distinct_keys_def createDebt_def Let_def distinct_update)

lemma distinct_keys_updateDebt:
  assumes "distinct_keys st" "updateDebt uid u st = Resolved st'"
  shows "distinct_keys st'"
  using assms
  by (auto simp: distinct_keys_def updateDebt_def distinct_update split: option.splits)

lemma distinct_keys_deleteDebt:
  assumes "distinct_keys st" "deleteDebt uid st = Resolved st'"
  shows "distinct_keys st'"
  using assms by (auto simp: distinct_keys_def deleteDebt_def distinct_delete)

lemma distinct_keys_updateReminder:
  assumes "distinct_keys st" "updateReminder uid u st = Resolved st'"
  shows "distinct_keys st'"
  using assms
  by (auto simp: distinct_keys_def updateReminder_def distinct_update split: option.splits)

lemma distinct_keys_deleteReminder:
  assumes "distinct_keys st" "deleteReminder uid st = Resolved st'"
  shows "distinct_keys st'"
  using assms by (auto simp: distinct_keys_def deleteReminder_def distinct_delete)

section \<open>Creating a transaction for an unknown account\<close>

text \<open>
  C1, as stated, fails: \<^verbatim>\<open>createTransaction\<close> stores the transaction before it
  looks the account up, and an unknown \<^verbatim>\<open>accountId\<close> only skips the balance update.
  On a new store, a transaction for the account \<^verbatim>\<open>missing\<close> is not rejected with
  \<open>NotFoundError\<close>: the call resolves and the transaction is in the collection.
\<close>

theorem createTransaction_unknown_account_persists:
  "createTransaction ''t1'' 1
     \<lparr>new_accountId = ''missing'', new_type = Expense, new_amount = ''50.00'',
      new_description = ''lunch'', new_category = Food\<rparr>
     (MemStorage ''a1'' 0 ''a2'' 0) \<noteq> Rejected NotFoundError \<and>
   createTransaction ''t1'' 1
     \<lparr>new_accountId = ''missing'', new_type = Expense, new_amount = ''50.00'',
      new_description = ''lunch'', new_category = Food\<rparr>
     (MemStorage ''a1'' 0 ''a2'' 0) =
   Resolved
     (\<lparr>transaction_id = ''t1'', transaction_accountId = ''missing'',
       transaction_type = Expense, transaction_amount = ''50.00'',
       transaction_description = ''lunch'', transaction_category = Food,
       transaction_createdAt = 1\<rparr>,
      (MemStorage ''a1'' 0 ''a2'' 0)
        \<lparr>transactions :=
           [(''t1'', \<lparr>transaction_id = ''t1'', transaction_accountId = ''missing'',
              transaction_type = Expense, transaction_amount = ''50.00'',
              transaction_description = ''lunch'', transaction_category = Food,
              transaction_createdAt = 1\<rparr>)]\<rparr>)"
  by (simp add: createTransaction_def MemStorage_def initializeDefaults_def empty_store_def
      Let_def)

text \<open>
  C1, amended. When \<^verbatim>\<open>accountId\<close> is the key of no account, \<^verbatim>\<open>createTransaction\<close>
  does not fail: it resolves with the new transaction, made of the payload, the new
  identifier and the time, and that transaction is stored under the new identifier,
  the other stored transactions staying as they were. The accounts, and so every
  balance, are unchanged, and so are the debts, the reminders and the chat messages.
\<close>

theorem createTransaction_unknown_account:
  assumes "map_of (accounts st) (new_accountId p) = None"
  shows "\<exists>t st'. createTransaction uid now p st = Resolved (t, st') \<and>
           t = \<lparr>transaction_id = uid, transaction_accountId = new_accountId p,
                transaction_type = new_type p, transaction_amount = new_amount p,
                transaction_description = new_description p,
                transaction_category = new_category p, transaction_createdAt = now\<rparr> \<and>
           st' = st\<lparr>transactions := AList.update uid t (transactions st)\<rparr> \<and>
           map_of (transactions st') uid = Some t \<and>
           (\<forall>k. k \<noteq> uid \<longrightarrow> map_of (transactions st') k = map_of (transactions st) k) \<and>
           accounts st' = accounts st \<and>
           map account_balance (getAccounts st') = map account_balance (getAccounts st) \<and>
           debts st' = debts st \<and> reminders st' = reminders st \<and>
           chatMessages st' = chatMessages st"
  using assms by (simp add: createTransaction_def Let_def getAccounts_def update_conv')

theorem createTransaction_unknown_account_witness:
  "map_of (accounts (MemStorage ''a1'' 0 ''a2'' 0)) ''missing'' = None \<and>
   (\<exists>t st'. createTransaction ''t1'' 1
        \<lparr>new_accountId = ''missing'', new_type = Expense, new_amount = ''50.00'',
         new_description = ''lunch'', new_category = Food\<rparr>
        (MemStorage ''a1'' 0 ''a2'' 0) = Resolved (t, st') \<and>
      t = \<lparr>transaction_id = ''t1'', transaction_accountId = ''missing'',
           transaction_type = Expense, transaction_amount = ''50.00'',
           transaction_description = ''lunch'', transaction_category = Food,
           transaction_createdAt = 1\<rparr> \<and>
      map_of (transactions st') ''t1'' = Some t \<and>
      accounts st' = accounts (MemStorage ''a1'' 0 ''a2'' 0))"
proof -
  have h: "map_of (accounts (MemStorage ''a1'' 0 ''a2'' 0)) ''missing'' = None"
    by (simp add: MemStorage_def initializeDefaults_def empty_store_def Let_def)
  show ?thesis
    using h createTransaction_unknown_account [of "MemStorage ''a1'' 0 ''a2'' 0"
        "\<lparr>new_accountId = ''missing'', new_type = Expense, new_amount = ''50.00'',
         new_description = ''lunch'', new_category = Food\<rparr>" "''t1''" 1]
    by auto
qed

section \<open>The balance after a transaction\<close>

text \<open>
  C2, as stated, fails: the balance is not computed in decimal arithmetic but in
  binary64, and \<^verbatim>\<open>toFixed(2)\<close> rounds what comes out. On a new store, whose main
  account holds \<^verbatim>\<open>2450.00\<close>, an income of \<^verbatim>\<open>99999999999999.99\<close> leaves the
  balance \<^verbatim>\<open>100000000002449.98\<close>; the exact sum of the two amounts is
  \<^verbatim>\<open>100000000002449.99\<close>.
\<close>

theorem createTransaction_balance_inexact:
  "createTransaction ''t1'' 1
     \<lparr>new_accountId = ''a1'', new_type = Income, new_amount = ''99999999999999.99'',
      new_description = ''gift'', new_category = Other\<rparr>
     (MemStorage ''a1'' 0 ''a2'' 0) =
   Resolved
     (\<lparr>transaction_id = ''t1'', transaction_accountId = ''a1'', transaction_type = Income,
       transaction_amount = ''99999999999999.99'', transaction_description = ''gift'',
       transaction_category = Other, transaction_createdAt = 1\<rparr>,
      \<lparr>accounts =
         [(''a1'', \<lparr>account_id = ''a1'', account_name = ''Main Account'',
            account_type = AccountMain, account_balance = ''100000000002449.98'',
            account_createdAt = 0\<rparr>),
          (''a2'', \<lparr>account_id = ''a2'', account_name = ''Savings Account'',
            account_type = AccountSavings, account_balance = ''8750.00'',
            account_createdAt = 0\<rparr>)],
       transactions =
         [(''t1'', \<lparr>transaction_id = ''t1'', transaction_accountId = ''a1'',
            transaction_type = Income, transaction_amount = ''99999999999999.99'',
            transaction_description = ''gift'', transaction_category = Other,
            transaction_createdAt = 1\<rparr>)],
       debts = [], reminders = [], chatMessages = []\<rparr>) \<and>
   decimal2 245000 = ''2450.00'' \<and>
   decimal2 9999999999999999 = ''99999999999999.99'' \<and>
   decimal2 (245000 + 9999999999999999) = ''100000000002449.99''"
proof (intro conjI)
  show "createTransaction ''t1'' 1
     \<lparr>new_accountId = ''a1'', new_type = Income, new_amount = ''99999999999999.99'',
      new_description = ''gift'', new_category = Other\<rparr>
     (MemStorage ''a1'' 0 ''a2'' 0) =
   Resolved
     (\<lparr>transaction_id = ''t1'', transaction_accountId = ''a1'', transaction_type = Income,
       transaction_amount = ''99999999999999.99'', transaction_description = ''gift'',
       transaction_category = Other, transaction_createdAt = 1\<rparr>,
      \<lparr>accounts =
         [(''a1'', \<lparr>account_id = ''a1'', account_name = ''Main Account'',
            account_type = AccountMain, account_balance = ''100000000002449.98'',
            account_createdAt = 0\<rparr>),
          (''a2'', \<lparr>account_id = ''a2'', account_name = ''Savings Account'',
            account_type = AccountSavings, account_balance = ''8750.00'',
            account_createdAt = 0\<rparr>)],
       transactions =
         [(''t1'', \<lparr>transaction_id = ''t1'', transaction_accountId = ''a1'',
            transaction_type = Income, transaction_amount = ''99999999999999.99'',
            transaction_description = ''gift'', transaction_category = Other,
            transaction_createdAt = 1\<rparr>)],
       debts = [], reminders = [], chatMessages = []\<rparr>)"
    by (simp add: createTransaction_def updateAccountBalance_def MemStorage_def
        initializeDefaults_def empty_store_def Let_def inexact_sum)
  show "decimal2 245000 = ''2450.00''"
    by (simp add: decimal2_def fixed_digits_def Let_def digits_of.simps digit_char_def)
  show "decimal2 9999999999999999 = ''99999999999999.99''"
    by (simp add: decimal2_def fixed_digits_def Let_def digits_of.simps digit_char_def)
  show "decimal2 (245000 + 9999999999999999) = ''100000000002449.99''"
    by (simp add: decimal2_def fixed_digits_def Let_def digits_of.simps digit_char_def)
qed

text \<open>
  C2, amended. Let the account of the transaction exist, let its balance be the
  two-decimal form of \<open>b\<close> hundredths and the amount the two-decimal form of \<open>a\<close>
  hundredths, both of magnitude at most \<open>10\<^sup>1\<^sup>2\<close> hundredths (ten thousand million
  units). Then \<^verbatim>\<open>createTransaction\<close> resolves, and the balance it leaves is the
  two-decimal form of exactly \<open>b + a\<close> for an income and of exactly \<open>b - a\<close> for an
  expense: within this range the rounding of binary64 and of \<^verbatim>\<open>toFixed(2)\<close> cancels
  out. Nothing else of that account changes, and no other account changes.
\<close>

theorem createTransaction_balance:
  assumes "map_of (accounts st) (new_accountId p) = Some acc"
    and "account_balance acc = decimal2 b" and "new_amount p = decimal2 a"
    and "\<bar>b\<bar> \<le> 10 ^ 12" and "\<bar>a\<bar> \<le> 10 ^ 12"
  shows "\<exists>t st'. createTransaction uid now p st = Resolved (t, st') \<and>
           map_of (accounts st') (new_accountId p) =
             Some (acc\<lparr>account_balance :=
                         decimal2 (if new_type p = Income then b + a else b - a)\<rparr>) \<and>
           (\<forall>k. k \<noteq> new_accountId p \<longrightarrow> map_of (accounts st') k = map_of (accounts st) k)"
proof (cases "new_type p")
  case Expense
  then show ?thesis
    using assms
    by (simp add: createTransaction_def updateAccountBalance_def Let_def update_conv'
        balance_after_expense)
next
  case Income
  then show ?thesis
    using assms
    by (simp add: createTransaction_def updateAccountBalance_def Let_def update_conv'
        balance_after)
qed

theorem createTransaction_balance_witness:
  "map_of (accounts (MemStorage ''a1'' 0 ''a2'' 0)) ''a1'' =
     Some \<lparr>account_id = ''a1'', account_name = ''Main Account'', account_type = AccountMain,
           account_balance = ''2450.00'', account_createdAt = 0\<rparr> \<and>
   ''2450.00'' = decimal2 245000 \<and> ''50.00'' = decimal2 5000 \<and>
   \<bar>245000\<bar> \<le> (10::int) ^ 12 \<and> \<bar>5000\<bar> \<le> (10::int) ^ 12 \<and>
   (\<exists>t st'. createTransaction ''t1'' 1
        \<lparr>new_accountId = ''a1'', new_type = Expense, new_amount = ''50.00'',
         new_description = ''lunch'', new_category = Food\<rparr>
        (MemStorage ''a1'' 0 ''a2'' 0) = Resolved (t, st') \<and>
      map_of (accounts st') ''a1'' =
        Some \<lparr>account_id = ''a1'', account_name = ''Main Account'',
              account_type = AccountMain, account_balance = ''2400.00'',
              account_createdAt = 0\<rparr>)"
proof -
  let ?acc = "\<lparr>account_id = ''a1'', account_name = ''Main Account'',
      account_type = AccountMain, account_balance = ''2450.00'', account_createdAt = 0\<rparr>"
  let ?p = "\<lparr>new_accountId = ''a1'', new_type = Expense, new_amount = ''50.00'',
      new_description = ''lunch'', new_category = Food\<rparr>"
  have h1: "map_of (accounts (MemStorage ''a1'' 0 ''a2'' 0)) (new_accountId ?p) = Some ?acc"
    by (simp add: MemStorage_def initializeDefaults_def empty_store_def Let_def)
  have d1: "decimal2 245000 = ''2450.00''"
    by (simp add: decimal2_def fixed_digits_def Let_def digits_of.simps digit_char_def)
  have d2: "decimal2 5000 = ''50.00''"
    by (simp add: decimal2_def fixed_digits_def Let_def digits_of.simps digit_char_def)
  have d3: "decimal2 (245000 - 5000) = ''2400.00''"
    by (simp add: decimal2_def fixed_digits_def Let_def digits_of.simps digit_char_def)
  have h2: "account_balance ?acc = decimal2 245000"
    by (simp add: d1)
  have h3: "new_amount ?p = decimal2 5000"
    by (simp add: d2)
  have h4: "\<bar>245000\<bar> \<le> (10::int) ^ 12" and h5: "\<bar>5000\<bar> \<le> (10::int) ^ 12"
    by simp_all
  from createTransaction_balance [OF h1 h2 h3 h4 h5, of "''t1''" 1]
  obtain t st' where
    r: "createTransaction ''t1'' 1 ?p (MemStorage ''a1'' 0 ''a2'' 0) = Resolved (t, st')"
    and b: "map_of (accounts st') (new_accountId ?p) =
      Some (?acc\<lparr>account_balance :=
                   decimal2 (if new_type ?p = Income then 245000 + 5000 else 245000 - 5000)\<rparr>)"
    by blast
  have "map_of (accounts st') ''a1'' = Some (?acc\<lparr>account_balance := ''2400.00''\<rparr>)"
    using b d3 by simp
  then have "map_of (accounts st') ''a1'' =
        Some \<lparr>account_id = ''a1'', account_name = ''Main Account'',
              account_type = AccountMain, account_balance = ''2400.00'',
              account_createdAt = 0\<rparr>"
    by simp
  with r h1 d1 d2 h4 h5 show ?thesis
    by (intro conjI exI [of _ t] exI [of _ st']) simp_all
qed

section \<open>Updating an unknown debt or reminder\<close>

text \<open>
  C3, as stated, fails: \<^verbatim>\<open>updateDebt\<close> and \<^verbatim>\<open>updateReminder\<close> guard the merge
  with \<^verbatim>\<open>if (debt)\<close> and \<^verbatim>\<open>if (reminder)\<close> and have no other branch. On a new store,
  which holds no debt and no reminder, both calls resolve and leave the store as it
  was.
\<close>

theorem update_absent_resolves:
  "updateDebt ''d1''
     \<lparr>set_debt_id = None, set_debt_friendName = None, set_debt_type = None,
      set_debt_amount = None, set_debt_description = None, set_debt_settled = Some True,
      set_debt_createdAt = None\<rparr>
     (MemStorage ''a1'' 0 ''a2'' 0) = Resolved (MemStorage ''a1'' 0 ''a2'' 0) \<and>
   updateReminder ''r1''
     \<lparr>set_reminder_id = None, set_reminder_title = None, set_reminder_description = None,
      set_reminder_amount = None, set_reminder_dueDate = None,
      set_reminder_status = Some Paid, set_reminder_recurring = None,
      set_reminder_createdAt = None\<rparr>
     (MemStorage ''a1'' 0 ''a2'' 0) = Resolved (MemStorage ''a1'' 0 ''a2'' 0) \<and>
   Resolved (MemStorage ''a1'' 0 ''a2'' 0) \<noteq> Rejected NotFoundError"
  by (simp add: updateDebt_def updateReminder_def MemStorage_def initializeDefaults_def
      empty_store_def Let_def)

text \<open>
  C3, amended. For an identifier that is the key of no debt, \<^verbatim>\<open>updateDebt\<close>
  resolves and leaves the store unchanged; likewise \<^verbatim>\<open>updateReminder\<close> for an
  identifier that is the key of no reminder.
\<close>

theorem update_absent_noop:
  "(map_of (debts st) uid = None \<longrightarrow> updateDebt uid u st = Resolved st) \<and>
   (map_of (reminders st) uid = None \<longrightarrow> updateReminder uid v st = Resolved st)"
  by (simp add: updateDebt_def updateReminder_def)

theorem update_absent_noop_witness:
  "map_of (debts empty_store) ''d1'' = None \<and>
   updateDebt ''d1''
     \<lparr>set_debt_id = None, set_debt_friendName = None, set_debt_type = None,
      set_debt_amount = None, set_debt_description = None, set_debt_settled = Some True,
      set_debt_createdAt = None\<rparr> empty_store = Resolved empty_store \<and>
   map_of (reminders empty_store) ''r1'' = None \<and>
   updateReminder ''r1''
     \<lparr>set_reminder_id = None, set_reminder_title = None, set_reminder_description = None,
      set_reminder_amount = None, set_reminder_dueDate = None,
      set_reminder_status = Some Paid, set_reminder_recurring = None,
      set_reminder_createdAt = None\<rparr> empty_store = Resolved empty_store"
  using update_absent_noop [of empty_store "''d1''"
      "\<lparr>set_debt_id = None, set_debt_friendName = None, set_debt_type = None,
        set_debt_amount = None, set_debt_description = None, set_debt_settled = Some True,
        set_debt_createdAt = None\<rparr>"
      "\<lparr>set_reminder_id = None, set_reminder_title = None, set_reminder_description = None,
        set_reminder_amount = None, set_reminder_dueDate = None,
        set_reminder_status = Some Paid, set_reminder_recurring = None,
        set_reminder_createdAt = None\<rparr>"]
    update_absent_noop [of empty_store "''r1''"
      "\<lparr>set_debt_id = None, set_debt_friendName = None, set_debt_type = None,
        set_debt_amount = None, set_debt_description = None, set_debt_settled = Some True,
        set_debt_createdAt = None\<rparr>"
      "\<lparr>set_reminder_id = None, set_reminder_title = None, set_reminder_description = None,
        set_reminder_amount = None, set_reminder_dueDate = None,
        set_reminder_status = Some Paid, set_reminder_recurring = None,
        set_reminder_createdAt = None\<rparr>"]
  by (simp add: empty_store_def)

section \<open>Deleting a transaction\<close>

text \<open>
  C4. Deleting a transaction leaves every account, and with it every balance, as it
  was: the amount applied when the transaction was created is not taken back. The
  debts, the reminders and the chat messages are unchanged too; only the transaction
  collection can differ, and the call resolves.
\<close>

theorem deleteTransaction_frame:
  "\<exists>st'. deleteTransaction uid st = Resolved st' \<and>
         accounts st' = accounts st \<and>
         map account_balance (getAccounts st') = map account_balance (getAccounts st) \<and>
         debts st' = debts st \<and> reminders st' = reminders st \<and>
         chatMessages st' = chatMessages st \<and>
         map_of (transactions st') uid = None"
  by (simp add: deleteTransaction_def getAccounts_def delete_conv')

section \<open>Deleting twice\<close>

text \<open>
  C5. Deleting under an identifier that is not a key of the collection resolves and
  leaves the store as it is. After any delete the identifier is absent, so a second
  delete is such a call: it resolves, changes nothing, and the identifier stays
  absent. This holds for transactions, debts and reminders.
\<close>

theorem delete_idempotent:
  "(map_of (transactions st) uid = None \<longrightarrow> deleteTransaction uid st = Resolved st) \<and>
   (map_of (debts st) uid = None \<longrightarrow> deleteDebt uid st = Resolved st) \<and>
   (map_of (reminders st) uid = None \<longrightarrow> deleteReminder uid st = Resolved st) \<and>
   (\<exists>st1. deleteTransaction uid st = Resolved st1 \<and> map_of (transactions st1) uid = None \<and>
      deleteTransaction uid st1 = Resolved st1) \<and>
   (\<exists>st1. deleteDebt uid st = Resolved st1 \<and> map_of (debts st1) uid = None \<and>
      deleteDebt uid st1 = Resolved st1) \<and>
   (\<exists>st1. deleteReminder uid st = Resolved st1 \<and> map_of (reminders st1) uid = None \<and>
      deleteReminder uid st1 = Resolved st1)"
  by (simp add: deleteTransaction_def deleteDebt_def deleteReminder_def delete_absent
      delete_conv' delete_idem)

theorem delete_idempotent_witness:
  "map_of (transactions empty_store) ''t1'' = None \<and>
   deleteTransaction ''t1'' empty_store = Resolved empty_store \<and>
   map_of (debts empty_store) ''t1'' = None \<and>
   deleteDebt ''t1'' empty_store = Resolved empty_store \<and>
   map_of (reminders empty_store) ''t1'' = None \<and>
   deleteReminder ''t1'' empty_store = Resolved empty_store"
  using delete_idempotent [of empty_store "''t1''"] by (simp add: empty_store_def)

section \<open>The order of the lists\<close>

lemma getTransactions_eq:
  "getTransactions accountId category startDate endDate st =
     sort_key (\<lambda>t. - transaction_createdAt t)
       (filter (\<lambda>t.
          (case accountId of None \<Rightarrow> True
           | Some a \<Rightarrow> a = [] \<or> transaction_accountId t = a) \<and>
          (case category of None \<Rightarrow> True
           | Some c \<Rightarrow> c = [] \<or> category_name (transaction_category t) = c) \<and>
          (case startDate of None \<Rightarrow> True | Some InvalidDate \<Rightarrow> False
           | Some (Date s) \<Rightarrow> s \<le> transaction_createdAt t) \<and>
          (case endDate of None \<Rightarrow> True | Some InvalidDate \<Rightarrow> False
           | Some (Date e) \<Rightarrow> transaction_createdAt t \<le> e))
        (map snd (transactions st)))"
proof -
  have a: "(if truthy accountId
            then filter (\<lambda>t. Some (transaction_accountId t) = accountId) xs else xs) =
           filter (\<lambda>t. case accountId of None \<Rightarrow> True
                       | Some a \<Rightarrow> a = [] \<or> transaction_accountId t = a) xs" for xs
    by (cases accountId) (auto simp: truthy_def intro: filter_cong)
  have b: "(if truthy category
            then filter (\<lambda>t. Some (category_name (transaction_category t)) = category) xs
            else xs) =
           filter (\<lambda>t. case category of None \<Rightarrow> True
                       | Some c \<Rightarrow> c = [] \<or> category_name (transaction_category t) = c) xs"
    for xs
    by (cases category) (auto simp: truthy_def intro: filter_cong)
  have c: "(case startDate of None \<Rightarrow> xs
            | Some d \<Rightarrow> filter (\<lambda>t. on_or_after (transaction_createdAt t) d) xs) =
           filter (\<lambda>t. case startDate of None \<Rightarrow> True | Some InvalidDate \<Rightarrow> False
                       | Some (Date s) \<Rightarrow> s \<le> transaction_createdAt t) xs" for xs
  proof (cases startDate)
    case (Some dt)
    then show ?thesis by (cases dt) simp_all
  qed simp
  have d: "(case endDate of None \<Rightarrow> xs
            | Some d \<Rightarrow> filter (\<lambda>t. on_or_before (transaction_createdAt t) d) xs) =
           filter (\<lambda>t. case endDate of None \<Rightarrow> True | Some InvalidDate \<Rightarrow> False
                       | Some (Date e) \<Rightarrow> transaction_createdAt t \<le> e) xs" for xs
  proof (cases endDate)
    case (Some dt)
    then show ?thesis by (cases dt) simp_all
  qed simp
  show ?thesis
    by (simp only: getTransactions_def Let_def array_sort_key_desc a b c d filter4)
qed

lemma getTransactions_strict:
  assumes "distinct (map (\<lambda>e. transaction_createdAt (snd e)) (transactions st))"
  shows "sorted_wrt (\<lambda>a b. transaction_createdAt b < transaction_createdAt a)
           (getTransactions accountId category startDate endDate st)"
proof -
  have d0: "distinct (map transaction_createdAt (map snd (transactions st)))"
    using assms by (simp add: comp_def)
  show ?thesis
    unfolding getTransactions_eq by (rule sort_key_desc_filter_strict [OF d0])
qed

lemma getTransactions_weak:
  "sorted_wrt (\<lambda>a b. transaction_createdAt b \<le> transaction_createdAt a)
     (getTransactions accountId category startDate endDate st)"
proof -
  have "sorted_wrt (\<lambda>a b. transaction_createdAt b \<le> transaction_createdAt a)
          (sort_key (\<lambda>t. - transaction_createdAt t) xs)" for xs
    using sort_key_weak [of "\<lambda>t. - transaction_createdAt t" xs] by simp
  then show ?thesis
    unfolding getTransactions_eq .
qed

text \<open>
  \<^verbatim>\<open>getTransactions\<close> returns exactly the stored transactions that pass the filters:
  the account and the category when given and not empty, the times from
  \<^verbatim>\<open>startDate\<close> to \<^verbatim>\<open>endDate\<close> with both ends included, nothing when a bound is
  an invalid date. They come by descending \<^verbatim>\<open>createdAt\<close>, strictly so when the stored
  transactions have pairwise distinct \<^verbatim>\<open>createdAt\<close>.
\<close>

lemma getTransactions_ordering:
  "(distinct (map (\<lambda>e. transaction_createdAt (snd e)) (transactions st)) \<longrightarrow>
      sorted_wrt (\<lambda>a b. transaction_createdAt b < transaction_createdAt a)
        (getTransactions accountId category startDate endDate st)) \<and>
   sorted_wrt (\<lambda>a b. transaction_createdAt b \<le> transaction_createdAt a)
     (getTransactions accountId category startDate endDate st) \<and>
   mset (getTransactions accountId category startDate endDate st) =
     mset (filter (\<lambda>t.
          (case accountId of None \<Rightarrow> True
           | Some a \<Rightarrow> a = [] \<or> transaction_accountId t = a) \<and>
          (case category of None \<Rightarrow> True
           | Some c \<Rightarrow> c = [] \<or> category_name (transaction_category t) = c) \<and>
          (case startDate of None \<Rightarrow> True | Some InvalidDate \<Rightarrow> False
           | Some (Date s) \<Rightarrow> s \<le> transaction_createdAt t) \<and>
          (case endDate of None \<Rightarrow> True | Some InvalidDate \<Rightarrow> False
           | Some (Date e) \<Rightarrow> transaction_createdAt t \<le> e))
        (map snd (transactions st)))"
proof (intro conjI impI)
  show "mset (getTransactions accountId category startDate endDate st) =
     mset (filter (\<lambda>t.
          (case accountId of None \<Rightarrow> True
           | Some a \<Rightarrow> a = [] \<or> transaction_accountId t = a) \<and>
          (case category of None \<Rightarrow> True
           | Some c \<Rightarrow> c = [] \<or> category_name (transaction_category t) = c) \<and>
          (case startDate of None \<Rightarrow> True | Some InvalidDate \<Rightarrow> False
           | Some (Date s) \<Rightarrow> s \<le> transaction_createdAt t) \<and>
          (case endDate of None \<Rightarrow> True | Some InvalidDate \<Rightarrow> False
           | Some (Date e) \<Rightarrow> transaction_createdAt t \<le> e))
        (map snd (transactions st)))"
    unfolding getTransactions_eq by simp
qed (simp_all add: getTransactions_strict getTransactions_weak)

text \<open>
  Six transactions, of which one is of another account, one of another category,
  one before the range and one after it; the two left lie on the two ends of the
  range and come latest first.
\<close>

lemma getTransactions_example:
  "getTransactions (Some ''a1'') (Some ''food'') (Some (Date 3)) (Some (Date 7))
     (empty_store\<lparr>transactions :=
        [(''t1'', \<lparr>transaction_id = ''t1'', transaction_accountId = ''a1'',
           transaction_type = Expense, transaction_amount = ''50.00'',
           transaction_description = ''lunch'', transaction_category = Food,
           transaction_createdAt = 3\<rparr>),
         (''t3'', \<lparr>transaction_id = ''t3'', transaction_accountId = ''a2'',
           transaction_type = Expense, transaction_amount = ''80.00'',
           transaction_description = ''dinner'', transaction_category = Food,
           transaction_createdAt = 5\<rparr>),
         (''t4'', \<lparr>transaction_id = ''t4'', transaction_accountId = ''a1'',
           transaction_type = Expense, transaction_amount = ''15.00'',
           transaction_description = ''bus'', transaction_category = Transport,
           transaction_createdAt = 5\<rparr>),
         (''t5'', \<lparr>transaction_id = ''t5'', transaction_accountId = ''a1'',
           transaction_type = Expense, transaction_amount = ''10.00'',
           transaction_description = ''snack'', transaction_category = Food,
           transaction_createdAt = 2\<rparr>),
         (''t2'', \<lparr>transaction_id = ''t2'', transaction_accountId = ''a1'',
           transaction_type = Expense, transaction_amount = ''20.00'',
           transaction_description = ''tea'', transaction_category = Food,
           transaction_createdAt = 7\<rparr>),
         (''t6'', \<lparr>transaction_id = ''t6'', transaction_accountId = ''a1'',
           transaction_type = Expense, transaction_amount = ''30.00'',
           transaction_description = ''fruit'', transaction_category = Food,
           transaction_createdAt = 8\<rparr>)]\<rparr>) =
   [\<lparr>transaction_id = ''t2'', transaction_accountId = ''a1'',
           transaction_type = Expense, transaction_amount = ''20.00'',
           transaction_description = ''tea'', transaction_category = Food,
           transaction_createdAt = 7\<rparr>,
    \<lparr>transaction_id = ''t1'', transaction_accountId = ''a1'',
           transaction_type = Expense, transaction_amount = ''50.00'',
           transaction_description = ''lunch'', transaction_category = Food,
           transaction_createdAt = 3\<rparr>]"
  by (simp add: getTransactions_def truthy_def array_sort_def Let_def)

text \<open>
  While every \<^verbatim>\<open>dueDate\<close> is a valid date, \<^verbatim>\<open>getReminders\<close> resolves with the
  stored reminders by ascending \<^verbatim>\<open>dueDate\<close>.
\<close>

lemma getReminders_ordering:
  assumes "list_all (\<lambda>r. has_time (reminder_dueDate r)) (map snd (reminders st))"
  shows "\<exists>ys. getReminders engine_order st = Resolved ys \<and>
           mset ys = mset (map snd (reminders st)) \<and>
           sorted_wrt (\<lambda>a b. \<exists>x y. reminder_dueDate a = DateValue (Date x) \<and>
                                reminder_dueDate b = DateValue (Date y) \<and> x \<le> y) ys"
proof -
  define rs where "rs = map snd (reminders st)"
  define due :: "reminder \<Rightarrow> int" where
    "due = (\<lambda>r. case reminder_dueDate r of DateValue (Date t) \<Rightarrow> t | _ \<Rightarrow> 0)"
  have valid: "\<exists>t. reminder_dueDate r = DateValue (Date t)" if "r \<in> set rs" for r
  proof -
    from that assms have "has_time (reminder_dueDate r)"
      by (auto simp: rs_def list_all_iff)
    then show ?thesis
      by (cases "reminder_dueDate r" rule: has_time.cases) simp_all
  qed
  have dates: "list_all (\<lambda>r. is_Date (reminder_dueDate r)) rs"
    using valid by (fastforce simp: list_all_iff)
  have cmp: "dueDate_compare a b = due a - due b" if "a \<in> set rs" "b \<in> set rs" for a b
    using valid [OF that(1)] valid [OF that(2)] by (auto simp: dueDate_compare_def due_def)
  have sort: "array_sort dueDate_compare rs = sort_key due rs"
    by (rule array_sort_key_on) (rule cmp)
  have short: "array_sort dueDate_compare rs = rs" if "length rs < 2"
    using that by (rule array_sort_short)
  have res: "getReminders engine_order st = Resolved (sort_key due rs)"
    using assms dates short sort by (auto simp: getReminders_def Let_def rs_def)
  have "sorted_wrt (\<lambda>a b. due a \<le> due b) (sort_key due rs)"
    by (rule sort_key_weak)
  then have "sorted_wrt (\<lambda>a b. \<exists>x y. reminder_dueDate a = DateValue (Date x) \<and>
                                reminder_dueDate b = DateValue (Date y) \<and> x \<le> y)
               (sort_key due rs)"
  proof (rule sorted_wrt_mono_rel [rotated])
    fix a b
    assume "a \<in> set (sort_key due rs)" "b \<in> set (sort_key due rs)" "due a \<le> due b"
    then show "\<exists>x y. reminder_dueDate a = DateValue (Date x) \<and>
                 reminder_dueDate b = DateValue (Date y) \<and> x \<le> y"
      using valid [of a] valid [of b] by (auto simp: due_def)
  qed
  with res show ?thesis
    by (simp add: rs_def)
qed


section \<open>The seed\<close>

text \<open>
  C7. A new store, built with two different identifiers, holds exactly two accounts,
  in this order: \<^verbatim>\<open>Main Account\<close> of type \<^verbatim>\<open>main\<close> with balance \<^verbatim>\<open>2450.00\<close> and
  \<^verbatim>\<open>Savings Account\<close> of type \<^verbatim>\<open>savings\<close> with balance \<^verbatim>\<open>8750.00\<close>. It holds no
  transaction, no debt, no reminder and no chat message.
\<close>

theorem MemStorage_seed:
  assumes "id1 \<noteq> id2"
  shows "getAccounts (MemStorage id1 now1 id2 now2) =
     [\<lparr>account_id = id1, account_name = ''Main Account'', account_type = AccountMain,
        account_balance = ''2450.00'', account_createdAt = now1\<rparr>,
      \<lparr>account_id = id2, account_name = ''Savings Account'', account_type = AccountSavings,
        account_balance = ''8750.00'', account_createdAt = now2\<rparr>] \<and>
   map fst (accounts (MemStorage id1 now1 id2 now2)) = [id1, id2] \<and>
   transactions (MemStorage id1 now1 id2 now2) = [] \<and>
   debts (MemStorage id1 now1 id2 now2) = [] \<and>
   reminders (MemStorage id1 now1 id2 now2) = [] \<and>
   chatMessages (MemStorage id1 now1 id2 now2) = []"
  using assms
  by (simp add: MemStorage_def initializeDefaults_def empty_store_def getAccounts_def Let_def)

theorem MemStorage_seed_witness:
  "''a1'' \<noteq> ''a2'' \<and>
   getAccounts (MemStorage ''a1'' 0 ''a2'' 0) =
     [\<lparr>account_id = ''a1'', account_name = ''Main Account'', account_type = AccountMain,
        account_balance = ''2450.00'', account_createdAt = 0\<rparr>,
      \<lparr>account_id = ''a2'', account_name = ''Savings Account'', account_type = AccountSavings,
        account_balance = ''8750.00'', account_createdAt = 0\<rparr>] \<and>
   transactions (MemStorage ''a1'' 0 ''a2'' 0) = [] \<and>
   debts (MemStorage ''a1'' 0 ''a2'' 0) = [] \<and>
   reminders (MemStorage ''a1'' 0 ''a2'' 0) = [] \<and>
   chatMessages (MemStorage ''a1'' 0 ''a2'' 0) = []"
proof -
  have h: "''a1'' \<noteq> ''a2''"
    by simp
  show ?thesis
    using h MemStorage_seed [OF h, of 0 0] by simp
qed

section \<open>The debt totals\<close>

lemma filter_getDebts:
  "filter Q (getDebts st) =
     sort_key (\<lambda>d. - debt_createdAt d) (filter Q (map snd (debts st)))"
  by (simp add: getDebts_def array_sort_key_desc filter_sort)

lemma mset_getDebts: "mset (getDebts st) = mset (map snd (debts st))"
  by (simp add: getDebts_def array_sort_key_desc)

lemma debt_totals_stored:
  "summary_debt_totals st =
     (foldl (\<lambda>sum d. number_add sum (parseFloat (debt_amount d))) (Finite 0)
        (sort_key (\<lambda>d. - debt_createdAt d)
           (filter (\<lambda>d. debt_type d = Owe \<and> debt_settled d = False)
              (map snd (debts st)))),
      foldl (\<lambda>sum d. number_add sum (parseFloat (debt_amount d))) (Finite 0)
        (sort_key (\<lambda>d. - debt_createdAt d)
           (filter (\<lambda>d. debt_type d = Owed \<and> debt_settled d = False)
              (map snd (debts st)))))"
  by (simp add: summary_debt_totals_def Let_def totalOwed_def totalOwedToUser_def
      filter_getDebts)

lemma debt_totals_settle:
  assumes "distinct (map fst (debts st))" "set_debt_settled u = Some True"
  shows "\<exists>st1 st2. updateDebt uid u st = Resolved st1 \<and> deleteDebt uid st = Resolved st2 \<and>
           summary_debt_totals st1 = summary_debt_totals st2"
proof (cases "map_of (debts st) uid")
  case None
  then show ?thesis
    by (simp add: updateDebt_def deleteDebt_def delete_absent)
next
  case (Some d)
  then have k: "uid \<in> fst ` set (debts st)"
    by (rule map_of_Some_key)
  have s: "debt_settled (assign_debt d u)"
    using assms(2) by (simp add: assign_debt_def)
  have "filter (\<lambda>d. debt_type d = ty \<and> \<not> debt_settled d)
          (map snd (AList.update uid (assign_debt d u) (debts st))) =
        filter (\<lambda>d. debt_type d = ty \<and> \<not> debt_settled d)
          (map snd (AList.delete uid (debts st)))" for ty
    by (rule filter_update_delete [OF assms(1) _ k]) (simp add: s)
  then show ?thesis
    using Some
    by (simp add: updateDebt_def deleteDebt_def summary_debt_totals_def Let_def
        totalOwed_def totalOwedToUser_def filter_getDebts)
qed

lemma debt_totals_unsettled:
  "summary_debt_totals st =
     summary_debt_totals (st\<lparr>debts := filter (\<lambda>e. \<not> debt_settled (snd e)) (debts st)\<rparr>)"
proof -
  have "filter (\<lambda>d. debt_type d = ty \<and> \<not> debt_settled d)
          (map snd (filter (\<lambda>e. \<not> debt_settled (snd e)) (debts st))) =
        filter (\<lambda>d. debt_type d = ty \<and> \<not> debt_settled d) (map snd (debts st))" for ty
    by (rule filter_map_snd_filter) simp
  then show ?thesis
    by (simp add: summary_debt_totals_def Let_def totalOwed_def totalOwedToUser_def
        filter_getDebts)
qed

lemma parse_120: "parseFloat ''120.00'' = Finite 120"
proof -
  have "round_double 120 = Finite 120"
    using round_double_normal [of 6 120 8444249301319680] by (simp add: pow2_def)
  then show ?thesis
    by (simp add: parseFloat_def str_unsigned_decimal_def Let_def is_digit_def
        digits_value_def digit_val_def exponent_part_def pow10_def is_whitespace_def)
qed

lemma parse_45_50: "parseFloat ''45.50'' = Finite (91 / 2)"
proof -
  have "round_double (91 / 2) = Finite (91 / 2)"
    using round_double_normal [of 5 "91 / 2" 6403555720167424] by (simp add: pow2_def)
  then show ?thesis
    by (simp add: parseFloat_def str_unsigned_decimal_def Let_def is_digit_def
        digits_value_def digit_val_def exponent_part_def pow10_def is_whitespace_def)
qed

lemma add_zero_120: "number_add (Finite 0) (Finite 120) = Finite 120"
  using round_double_normal [of 6 120 8444249301319680] by (simp add: pow2_def)

lemma add_zero_45_50: "number_add (Finite 0) (Finite (91 / 2)) = Finite (91 / 2)"
  using round_double_normal [of 5 "91 / 2" 6403555720167424] by (simp add: pow2_def)

text \<open>
  C8. The summary reads every stored debt: \<^verbatim>\<open>getDebts\<close> is a permutation of the
  values of the collection. Its two totals are the sums, latest debt first, of the
  amounts of the stored debts of type \<^verbatim>\<open>owe\<close>, and of type \<^verbatim>\<open>owed\<close>, whose
  \<^verbatim>\<open>settled\<close> is false; the sum is the one of the code, \<^verbatim>\<open>parseFloat\<close> and the
  addition of doubles from 0. Settled debts do not count: the totals are those of
  the store without its settled debts, and once an update sets \<^verbatim>\<open>settled\<close> to true
  on a debt the totals are those of the store without that debt, whatever they were
  before.
\<close>

theorem debt_totals_unsettled_only:
  "mset (getDebts st) = mset (map snd (debts st)) \<and>
   summary_debt_totals st =
     (foldl (\<lambda>sum d. number_add sum (parseFloat (debt_amount d))) (Finite 0)
        (sort_key (\<lambda>d. - debt_createdAt d)
           (filter (\<lambda>d. debt_type d = Owe \<and> debt_settled d = False)
              (map snd (debts st)))),
      foldl (\<lambda>sum d. number_add sum (parseFloat (debt_amount d))) (Finite 0)
        (sort_key (\<lambda>d. - debt_createdAt d)
           (filter (\<lambda>d. debt_type d = Owed \<and> debt_settled d = False)
              (map snd (debts st))))) \<and>
   summary_debt_totals st =
     summary_debt_totals (st\<lparr>debts := filter (\<lambda>e. debt_settled (snd e) = False) (debts st)\<rparr>) \<and>
   (distinct_keys st \<and> set_debt_settled u = Some True \<longrightarrow>
      (\<exists>st1 st2. updateDebt uid u st = Resolved st1 \<and> deleteDebt uid st = Resolved st2 \<and>
         summary_debt_totals st1 = summary_debt_totals st2))"
proof (intro conjI impI)
  show "mset (getDebts st) = mset (map snd (debts st))"
    by (rule mset_getDebts)
  show "summary_debt_totals st =
     (foldl (\<lambda>sum d. number_add sum (parseFloat (debt_amount d))) (Finite 0)
        (sort_key (\<lambda>d. - debt_createdAt d)
           (filter (\<lambda>d. debt_type d = Owe \<and> debt_settled d = False)
              (map snd (debts st)))),
      foldl (\<lambda>sum d. number_add sum (parseFloat (debt_amount d))) (Finite 0)
        (sort_key (\<lambda>d. - debt_createdAt d)
           (filter (\<lambda>d. debt_type d = Owed \<and> debt_settled d = False)
              (map snd (debts st)))))"
    by (rule debt_totals_stored)
  show "summary_debt_totals st =
     summary_debt_totals (st\<lparr>debts := filter (\<lambda>e. debt_settled (snd e) = False) (debts st)\<rparr>)"
    using debt_totals_unsettled [of st] by simp
  assume "distinct_keys st \<and> set_debt_settled u = Some True"
  then show "\<exists>st1 st2. updateDebt uid u st = Resolved st1 \<and> deleteDebt uid st = Resolved st2 \<and>
         summary_debt_totals st1 = summary_debt_totals st2"
    by (intro debt_totals_settle) (simp_all add: distinct_keys_def)
qed

theorem debt_totals_unsettled_only_witness:
  "distinct_keys
     (empty_store\<lparr>debts :=
        [(''d1'', \<lparr>debt_id = ''d1'', debt_friendName = ''Asha'', debt_type = Owe,
           debt_amount = ''120.00'', debt_description = ''dinner'',
           debt_settled = False, debt_createdAt = 1\<rparr>),
         (''d2'', \<lparr>debt_id = ''d2'', debt_friendName = ''Ravi'', debt_type = Owed,
           debt_amount = ''45.50'', debt_description = ''tickets'',
           debt_settled = False, debt_createdAt = 2\<rparr>),
         (''d3'', \<lparr>debt_id = ''d3'', debt_friendName = ''Mina'', debt_type = Owe,
           debt_amount = ''30.00'', debt_description = ''taxi'',
           debt_settled = True, debt_createdAt = 3\<rparr>)]\<rparr>) \<and>
   summary_debt_totals
     (empty_store\<lparr>debts :=
        [(''d1'', \<lparr>debt_id = ''d1'', debt_friendName = ''Asha'', debt_type = Owe,
           debt_amount = ''120.00'', debt_description = ''dinner'',
           debt_settled = False, debt_createdAt = 1\<rparr>),
         (''d2'', \<lparr>debt_id = ''d2'', debt_friendName = ''Ravi'', debt_type = Owed,
           debt_amount = ''45.50'', debt_description = ''tickets'',
           debt_settled = False, debt_createdAt = 2\<rparr>),
         (''d3'', \<lparr>debt_id = ''d3'', debt_friendName = ''Mina'', debt_type = Owe,
           debt_amount = ''30.00'', debt_description = ''taxi'',
           debt_settled = True, debt_createdAt = 3\<rparr>)]\<rparr>) = (Finite 120, Finite (91 / 2)) \<and>
   (\<exists>st1 st2.
      updateDebt ''d1''
        \<lparr>set_debt_id = None, set_debt_friendName = None, set_debt_type = None,
         set_debt_amount = None, set_debt_description = None,
         set_debt_settled = Some True, set_debt_createdAt = None\<rparr>
        (empty_store\<lparr>debts :=
        [(''d1'', \<lparr>debt_id = ''d1'', debt_friendName = ''Asha'', debt_type = Owe,
           debt_amount = ''120.00'', debt_description = ''dinner'',
           debt_settled = False, debt_createdAt = 1\<rparr>),
         (''d2'', \<lparr>debt_id = ''d2'', debt_friendName = ''Ravi'', debt_type = Owed,
           debt_amount = ''45.50'', debt_description = ''tickets'',
           debt_settled = False, debt_createdAt = 2\<rparr>),
         (''d3'', \<lparr>debt_id = ''d3'', debt_friendName = ''Mina'', debt_type = Owe,
           debt_amount = ''30.00'', debt_description = ''taxi'',
           debt_settled = True, debt_createdAt = 3\<rparr>)]\<rparr>) = Resolved st1 \<and>
      deleteDebt ''d1''
        (empty_store\<lparr>debts :=
        [(''d1'', \<lparr>debt_id = ''d1'', debt_friendName = ''Asha'', debt_type = Owe,
           debt_amount = ''120.00'', debt_description = ''dinner'',
           debt_settled = False, debt_createdAt = 1\<rparr>),
         (''d2'', \<lparr>debt_id = ''d2'', debt_friendName = ''Ravi'', debt_type = Owed,
           debt_amount = ''45.50'', debt_description = ''tickets'',
           debt_settled = False, debt_createdAt = 2\<rparr>),
         (''d3'', \<lparr>debt_id = ''d3'', debt_friendName = ''Mina'', debt_type = Owe,
           debt_amount = ''30.00'', debt_description = ''taxi'',
           debt_settled = True, debt_createdAt = 3\<rparr>)]\<rparr>) = Resolved st2 \<and>
      summary_debt_totals st1 = summary_debt_totals st2 \<and>
      summary_debt_totals st1 = (Finite 0, Finite (91 / 2)))"
proof -
  let ?S = "(empty_store\<lparr>debts :=
        [(''d1'', \<lparr>debt_id = ''d1'', debt_friendName = ''Asha'', debt_type = Owe,
           debt_amount = ''120.00'', debt_description = ''dinner'',
           debt_settled = False, debt_createdAt = 1\<rparr>),
         (''d2'', \<lparr>debt_id = ''d2'', debt_friendName = ''Ravi'', debt_type = Owed,
           debt_amount = ''45.50'', debt_description = ''tickets'',
           debt_settled = False, debt_createdAt = 2\<rparr>),
         (''d3'', \<lparr>debt_id = ''d3'', debt_friendName = ''Mina'', debt_type = Owe,
           debt_amount = ''30.00'', debt_description = ''taxi'',
           debt_settled = True, debt_createdAt = 3\<rparr>)]\<rparr>)"
  let ?S2 = "(empty_store\<lparr>debts :=
        [(''d2'', \<lparr>debt_id = ''d2'', debt_friendName = ''Ravi'', debt_type = Owed,
           debt_amount = ''45.50'', debt_description = ''tickets'',
           debt_settled = False, debt_createdAt = 2\<rparr>),
         (''d3'', \<lparr>debt_id = ''d3'', debt_friendName = ''Mina'', debt_type = Owe,
           debt_amount = ''30.00'', debt_description = ''taxi'',
           debt_settled = True, debt_createdAt = 3\<rparr>)]\<rparr>)"
  let ?u = "\<lparr>set_debt_id = None, set_debt_friendName = None, set_debt_type = None,
         set_debt_amount = None, set_debt_description = None,
         set_debt_settled = Some True, set_debt_createdAt = None\<rparr>"
  have h: "distinct_keys ?S"
    by (simp add: distinct_keys_def empty_store_def)
  have e0: "summary_debt_totals ?S = (Finite 120, Finite (91 / 2))"
    by (simp add: summary_debt_totals_def getDebts_def array_sort_def totalOwed_def
        totalOwedToUser_def Let_def parse_120 parse_45_50 add_zero_120 add_zero_45_50
        del: number_add.simps)
  have e2: "summary_debt_totals ?S2 = (Finite 0, Finite (91 / 2))"
    by (simp add: summary_debt_totals_def getDebts_def array_sort_def totalOwed_def
        totalOwedToUser_def Let_def parse_120 parse_45_50 add_zero_120 add_zero_45_50
        del: number_add.simps)
  have d: "deleteDebt ''d1'' ?S = Resolved ?S2"
    by (simp add: deleteDebt_def AList.delete_eq empty_store_def)
  from debt_totals_unsettled_only [of ?S ?u "''d1''"] h
  obtain st1 st2 where
    u: "updateDebt ''d1'' ?u ?S = Resolved st1" and
    d': "deleteDebt ''d1'' ?S = Resolved st2" and
    eq: "summary_debt_totals st1 = summary_debt_totals st2"
    by auto
  from d d' have "st2 = ?S2"
    by simp
  with eq e2 have "summary_debt_totals st1 = (Finite 0, Finite (91 / 2))"
    by simp
  with h e0 u d' eq show ?thesis
    by (intro conjI exI [of _ st1] exI [of _ st2])
qed

section \<open>Creating a debt\<close>

text \<open>
  C9. Whatever the payload, also one that carries a \<^verbatim>\<open>settled\<close> property,
  \<^verbatim>\<open>createDebt\<close> resolves with a debt whose \<^verbatim>\<open>settled\<close> is false, and that debt is
  the one stored under the new identifier.
\<close>

theorem createDebt_unsettled:
  "\<exists>d st'. createDebt uid now insertDebt st = Resolved (d, st') \<and>
     debt_settled d = False \<and> map_of (debts st') uid = Some d \<and> getDebt uid st' = Some d"
  by (simp add: createDebt_def Let_def update_conv' getDebt_def)

section \<open>What an update leaves alone\<close>

lemma updateDebt_frame:
  assumes "map_of (debts st) uid = Some d"
  shows "\<exists>st' d'. updateDebt uid u st = Resolved st' \<and> map_of (debts st') uid = Some d' \<and>
      (set_debt_id u = None \<longrightarrow> debt_id d' = debt_id d) \<and>
      (set_debt_friendName u = None \<longrightarrow> debt_friendName d' = debt_friendName d) \<and>
      (set_debt_type u = None \<longrightarrow> debt_type d' = debt_type d) \<and>
      (set_debt_amount u = None \<longrightarrow> debt_amount d' = debt_amount d) \<and>
      (set_debt_description u = None \<longrightarrow> debt_description d' = debt_description d) \<and>
      (set_debt_settled u = None \<longrightarrow> debt_settled d' = debt_settled d) \<and>
      (set_debt_createdAt u = None \<longrightarrow> debt_createdAt d' = debt_createdAt d) \<and>
      (\<forall>k. k \<noteq> uid \<longrightarrow> map_of (debts st') k = map_of (debts st) k) \<and>
      map fst (debts st') = map fst (debts st) \<and>
      accounts st' = accounts st \<and> transactions st' = transactions st \<and>
      reminders st' = reminders st \<and> chatMessages st' = chatMessages st"
  using assms map_of_Some_key [OF assms]
  by (simp add: updateDebt_def assign_debt_def update_conv' update_keys)

lemma updateReminder_frame:
  assumes "map_of (reminders st) uid = Some r"
  shows "\<exists>st' r'. updateReminder uid v st = Resolved st' \<and>
      map_of (reminders st') uid = Some r' \<and>
      (set_reminder_id v = None \<longrightarrow> reminder_id r' = reminder_id r) \<and>
      (set_reminder_title v = None \<longrightarrow> reminder_title r' = reminder_title r) \<and>
      (set_reminder_description v = None \<longrightarrow>
         reminder_description r' = reminder_description r) \<and>
      (set_reminder_amount v = None \<longrightarrow> reminder_amount r' = reminder_amount r) \<and>
      (set_reminder_dueDate v = None \<longrightarrow> reminder_dueDate r' = reminder_dueDate r) \<and>
      (set_reminder_status v = None \<longrightarrow> reminder_status r' = reminder_status r) \<and>
      (set_reminder_recurring v = None \<longrightarrow> reminder_recurring r' = reminder_recurring r) \<and>
      (set_reminder_createdAt v = None \<longrightarrow> reminder_createdAt r' = reminder_createdAt r) \<and>
      (\<forall>k. k \<noteq> uid \<longrightarrow> map_of (reminders st') k = map_of (reminders st) k) \<and>
      map fst (reminders st') = map fst (reminders st) \<and>
      accounts st' = accounts st \<and> transactions st' = transactions st \<and>
      debts st' = debts st \<and> chatMessages st' = chatMessages st"
  using assms map_of_Some_key [OF assms]
  by (simp add: updateReminder_def assign_reminder_def update_conv' update_keys)

text \<open>
  C10. An update of a stored debt resolves; in the updated debt every field that the
  payload does not name has the value it had; under every other key the collection
  holds what it held, in the same order of keys; and the accounts (so every balance),
  the transactions, the reminders and the chat messages are unchanged. The same
  holds for an update of a stored reminder.
\<close>

theorem update_frame:
  "(map_of (debts st) uid = Some d \<longrightarrow>
     (\<exists>st' d'. updateDebt uid u st = Resolved st' \<and> map_of (debts st') uid = Some d' \<and>
      (set_debt_id u = None \<longrightarrow> debt_id d' = debt_id d) \<and>
      (set_debt_friendName u = None \<longrightarrow> debt_friendName d' = debt_friendName d) \<and>
      (set_debt_type u = None \<longrightarrow> debt_type d' = debt_type d) \<and>
      (set_debt_amount u = None \<longrightarrow> debt_amount d' = debt_amount d) \<and>
      (set_debt_description u = None \<longrightarrow> debt_description d' = debt_description d) \<and>
      (set_debt_settled u = None \<longrightarrow> debt_settled d' = debt_settled d) \<and>
      (set_debt_createdAt u = None \<longrightarrow> debt_createdAt d' = debt_createdAt d) \<and>
      (\<forall>k. k \<noteq> uid \<longrightarrow> map_of (debts st') k = map_of (debts st) k) \<and>
      map fst (debts st') = map fst (debts st) \<and>
      accounts st' = accounts st \<and> transactions st' = transactions st \<and>
      reminders st' = reminders st \<and> chatMessages st' = chatMessages st)) \<and>
   (map_of (reminders st) uid = Some r \<longrightarrow>
     (\<exists>st' r'. updateReminder uid v st = Resolved st' \<and>
      map_of (reminders st') uid = Some r' \<and>
      (set_reminder_id v = None \<longrightarrow> reminder_id r' = reminder_id r) \<and>
      (set_reminder_title v = None \<longrightarrow> reminder_title r' = reminder_title r) \<and>
      (set_reminder_description v = None \<longrightarrow>
         reminder_description r' = reminder_description r) \<and>
      (set_reminder_amount v = None \<longrightarrow> reminder_amount r' = reminder_amount r) \<and>
      (set_reminder_dueDate v = None \<longrightarrow> reminder_dueDate r' = reminder_dueDate r) \<and>
      (set_reminder_status v = None \<longrightarrow> reminder_status r' = reminder_status r) \<and>
      (set_reminder_recurring v = None \<longrightarrow> reminder_recurring r' = reminder_recurring r) \<and>
      (set_reminder_createdAt v = None \<longrightarrow> reminder_createdAt r' = reminder_createdAt r) \<and>
      (\<forall>k. k \<noteq> uid \<longrightarrow> map_of (reminders st') k = map_of (reminders st) k) \<and>
      map fst (reminders st') = map fst (reminders st) \<and>
      accounts st' = accounts st \<and> transactions st' = transactions st \<and>
      debts st' = debts st \<and> chatMessages st' = chatMessages st))"
  by (intro conjI impI) (erule updateDebt_frame, erule updateReminder_frame)

theorem update_frame_witness:
  "map_of (debts (empty_store\<lparr>
       debts := [(''k1'', \<lparr>debt_id = ''k1'', debt_friendName = ''Asha'', debt_type = Owe,
          debt_amount = ''120.00'', debt_description = ''dinner'', debt_settled = False,
          debt_createdAt = 1\<rparr>)],
       reminders := [(''k1'', \<lparr>reminder_id = ''k1'', reminder_title = ''Rent'',
          reminder_description = None, reminder_amount = ''900.00'', reminder_dueDate = DateValue (Date 5),
          reminder_status = Pending, reminder_recurring = True,
          reminder_createdAt = 2\<rparr>)]\<rparr>)) ''k1'' =
     Some \<lparr>debt_id = ''k1'', debt_friendName = ''Asha'', debt_type = Owe,
          debt_amount = ''120.00'', debt_description = ''dinner'', debt_settled = False,
          debt_createdAt = 1\<rparr> \<and>
   map_of (reminders (empty_store\<lparr>
       debts := [(''k1'', \<lparr>debt_id = ''k1'', debt_friendName = ''Asha'', debt_type = Owe,
          debt_amount = ''120.00'', debt_description = ''dinner'', debt_settled = False,
          debt_createdAt = 1\<rparr>)],
       reminders := [(''k1'', \<lparr>reminder_id = ''k1'', reminder_title = ''Rent'',
          reminder_description = None, reminder_amount = ''900.00'', reminder_dueDate = DateValue (Date 5),
          reminder_status = Pending, reminder_recurring = True,
          reminder_createdAt = 2\<rparr>)]\<rparr>)) ''k1'' =
     Some \<lparr>reminder_id = ''k1'', reminder_title = ''Rent'',
          reminder_description = None, reminder_amount = ''900.00'', reminder_dueDate = DateValue (Date 5),
          reminder_status = Pending, reminder_recurring = True,
          reminder_createdAt = 2\<rparr> \<and>
   (\<exists>st' d'. updateDebt ''k1''
        \<lparr>set_debt_id = None, set_debt_friendName = None, set_debt_type = None,
         set_debt_amount = None, set_debt_description = None, set_debt_settled = Some True,
         set_debt_createdAt = None\<rparr>
        (empty_store\<lparr>
       debts := [(''k1'', \<lparr>debt_id = ''k1'', debt_friendName = ''Asha'', debt_type = Owe,
          debt_amount = ''120.00'', debt_description = ''dinner'', debt_settled = False,
          debt_createdAt = 1\<rparr>)],
       reminders := [(''k1'', \<lparr>reminder_id = ''k1'', reminder_title = ''Rent'',
          reminder_description = None, reminder_amount = ''900.00'', reminder_dueDate = DateValue (Date 5),
          reminder_status = Pending, reminder_recurring = True,
          reminder_createdAt = 2\<rparr>)]\<rparr>) = Resolved st' \<and>
      map_of (debts st') ''k1'' = Some d' \<and> debt_amount d' = ''120.00'' \<and>
      debt_friendName d' = ''Asha'' \<and> accounts st' = [] \<and>
      map fst (reminders st') = [''k1'']) \<and>
   (\<exists>st' r'. updateReminder ''k1''
        \<lparr>set_reminder_id = None, set_reminder_title = None, set_reminder_description = None,
         set_reminder_amount = None, set_reminder_dueDate = Some (DateValue (Date 9)),
         set_reminder_status = Some Snoozed, set_reminder_recurring = None,
         set_reminder_createdAt = None\<rparr>
        (empty_store\<lparr>
       debts := [(''k1'', \<lparr>debt_id = ''k1'', debt_friendName = ''Asha'', debt_type = Owe,
          debt_amount = ''120.00'', debt_description = ''dinner'', debt_settled = False,
          debt_createdAt = 1\<rparr>)],
       reminders := [(''k1'', \<lparr>reminder_id = ''k1'', reminder_title = ''Rent'',
          reminder_description = None, reminder_amount = ''900.00'', reminder_dueDate = DateValue (Date 5),
          reminder_status = Pending, reminder_recurring = True,
          reminder_createdAt = 2\<rparr>)]\<rparr>) = Resolved st' \<and>
      map_of (reminders st') ''k1'' = Some r' \<and> reminder_title r' = ''Rent'' \<and>
      reminder_amount r' = ''900.00'' \<and> accounts st' = [] \<and>
      map fst (debts st') = [''k1''])"
proof -
  let ?D = "\<lparr>debt_id = ''k1'', debt_friendName = ''Asha'', debt_type = Owe,
          debt_amount = ''120.00'', debt_description = ''dinner'', debt_settled = False,
          debt_createdAt = 1\<rparr>"
  let ?R = "\<lparr>reminder_id = ''k1'', reminder_title = ''Rent'',
          reminder_description = None, reminder_amount = ''900.00'', reminder_dueDate = DateValue (Date 5),
          reminder_status = Pending, reminder_recurring = True,
          reminder_createdAt = 2\<rparr>"
  let ?S = "empty_store\<lparr>debts := [(''k1'', ?D)], reminders := [(''k1'', ?R)]\<rparr>"
  let ?U = "\<lparr>set_debt_id = None, set_debt_friendName = None, set_debt_type = None,
         set_debt_amount = None, set_debt_description = None, set_debt_settled = Some True,
         set_debt_createdAt = None\<rparr>"
  let ?V = "\<lparr>set_reminder_id = None, set_reminder_title = None,
         set_reminder_description = None,
         set_reminder_amount = None, set_reminder_dueDate = Some (DateValue (Date 9)),
         set_reminder_status = Some Snoozed, set_reminder_recurring = None,
         set_reminder_createdAt = None\<rparr>"
  have h1: "map_of (debts ?S) ''k1'' = Some ?D"
    by simp
  have h2: "map_of (reminders ?S) ''k1'' = Some ?R"
    by simp
  have a: "accounts ?S = []" "map fst (reminders ?S) = [''k1'']" "map fst (debts ?S) = [''k1'']"
    by (simp_all add: empty_store_def)
  from update_frame [of ?S "''k1''" ?D ?U ?R ?V] h1 h2
  obtain st1 d1 st2 r1 where
    "updateDebt ''k1'' ?U ?S = Resolved st1" "map_of (debts st1) ''k1'' = Some d1"
    "debt_amount d1 = debt_amount ?D" "debt_friendName d1 = debt_friendName ?D"
    "accounts st1 = accounts ?S" "reminders st1 = reminders ?S"
    "updateReminder ''k1'' ?V ?S = Resolved st2" "map_of (reminders st2) ''k1'' = Some r1"
    "reminder_title r1 = reminder_title ?R" "reminder_amount r1 = reminder_amount ?R"
    "accounts st2 = accounts ?S" "debts st2 = debts ?S"
    by auto
  with h1 h2 a show ?thesis
    by (intro conjI exI [of _ st1] exI [of _ d1] exI [of _ st2] exI [of _ r1]) simp_all
qed

end
